theory Spec2Isabelle
  imports Complex_Main "HOL-Library.Sublist"
begin

section \<open>Python values used by the backend\<close>

subsection \<open>Strings\<close>

text \<open>
  A Python \<^verbatim>\<open>str\<close> is a sequence of Unicode code points, and \<^verbatim>\<open>len\<close> counts code
  points. A string is therefore a list of natural numbers; \<open>py\<close> turns an ASCII literal
  into its code points. Where the source is quoted below, a character outside ASCII is
  written in parentheses, as in \<^verbatim>\<open>conversaci(o)n\<close>, and the definitions give its code
  point.
\<close>

type_synonym pystr = "nat list"

definition py :: "string \<Rightarrow> pystr" where
  "py s = map of_char s"

text \<open>
  \<^verbatim>\<open>str.isspace\<close> for one code point: the characters \<^verbatim>\<open>str.strip()\<close> and
  \<^verbatim>\<open>str.split()\<close> treat as whitespace (TAB to CR, FS to US, space, NEL, NBSP, the
  Unicode space separators and the line and paragraph separators).
\<close>

definition isspace :: "nat \<Rightarrow> bool" where
  "isspace c \<longleftrightarrow>
     (9 \<le> c \<and> c \<le> 13) \<or> (28 \<le> c \<and> c \<le> 32) \<or> c = 133 \<or> c = 160 \<or> c = 5760 \<or>
     (8192 \<le> c \<and> c \<le> 8202) \<or> c = 8232 \<or> c = 8233 \<or> c = 8239 \<or> c = 8287 \<or> c = 12288"

text \<open>\<^verbatim>\<open>s.strip()\<close>: whitespace removed at both ends.\<close>

definition strip :: "pystr \<Rightarrow> pystr" where
  "strip s = rev (dropWhile isspace (rev (dropWhile isspace s)))"

text \<open>\<^verbatim>\<open>s.strip(chars)\<close>: the code points of \<open>chars\<close> removed at both ends.\<close>

definition strip_chars :: "pystr \<Rightarrow> pystr \<Rightarrow> pystr" where
  "strip_chars chars s =
     rev (dropWhile (\<lambda>c. c \<in> set chars) (rev (dropWhile (\<lambda>c. c \<in> set chars) s)))"

text \<open>\<^verbatim>\<open>s.rstrip(chars)\<close>: the code points of \<open>chars\<close> removed at the right end only.\<close>

definition rstrip_chars :: "pystr \<Rightarrow> pystr \<Rightarrow> pystr" where
  "rstrip_chars chars s = rev (dropWhile (\<lambda>c. c \<in> set chars) (rev s))"

text \<open>
  The text before and after the first (leftmost) occurrence of \<open>sep\<close> in \<open>text\<close>, or
  \<open>None\<close> when \<open>sep\<close> does not occur: what \<^verbatim>\<open>sep in text\<close> and
  \<^verbatim>\<open>text.split(sep, 1)\<close> search for.
\<close>

fun str_partition :: "pystr \<Rightarrow> pystr \<Rightarrow> (pystr \<times> pystr) option" where
  "str_partition [] sep = (if sep = [] then Some ([], []) else None)"
| "str_partition (c # cs) sep =
     (if prefix sep (c # cs) then Some ([], drop (length sep) (c # cs))
      else map_option (\<lambda>(a, b). (c # a, b)) (str_partition cs sep))"

definition str_contains :: "pystr \<Rightarrow> pystr \<Rightarrow> bool" where
  "str_contains text sep \<longleftrightarrow> str_partition text sep \<noteq> None"

subsection \<open>Exceptions\<close>

text \<open>
  The exceptions the modelled code can raise. A function that can raise returns
  \<open>py_error + 'a\<close>, with \<open>Inl\<close> for the exception; \<open>HTTPException\<close> carries the
  status code of FastAPI's exception.
\<close>

datatype py_error =
  AttributeError | IndexError | KeyError | TypeError | ValueError | OverflowError |
  StopIteration | HTTPException nat

definition and_then :: "py_error + 'a \<Rightarrow> ('a \<Rightarrow> py_error + 'b) \<Rightarrow> py_error + 'b" where
  "and_then r f = (case r of Inl e \<Rightarrow> Inl e | Inr v \<Rightarrow> f v)"

text \<open>\<^verbatim>\<open>text.split(sep, 1)\<close>: raises \<^verbatim>\<open>ValueError\<close> on an empty separator.\<close>

definition str_split1 :: "pystr \<Rightarrow> pystr \<Rightarrow> py_error + pystr list" where
  "str_split1 text sep =
     (if sep = [] then Inl ValueError
      else case str_partition text sep of
             None \<Rightarrow> Inr [text]
           | Some (a, b) \<Rightarrow> Inr [a, b])"

text \<open>\<^verbatim>\<open>xs[i]\<close> for an index \<open>i \<ge> 0\<close>.\<close>

definition list_index :: "'a list \<Rightarrow> nat \<Rightarrow> py_error + 'a" where
  "list_index xs i = (if i < length xs then Inr (xs ! i) else Inl IndexError)"

section \<open>Field extractor\<close>

text \<open>
  \<^verbatim>\<open>
  def extract_field(text: str, label: str) -> Optional[str]:
      marker = f"{label}:"
      if marker not in text:
          return None
      segmento = text.split(marker, 1)[1]
      posible = segmento.split("|", 1)[0].strip().strip(".")
      return posible or None
  \<close>
\<close>

definition extract_field :: "pystr \<Rightarrow> pystr \<Rightarrow> py_error + pystr option" where
  "extract_field text label =
     (let marker = label @ py '':'' in
      if \<not> str_contains text marker then Inr None
      else
        and_then (str_split1 text marker) (\<lambda>parts.
        and_then (list_index parts 1) (\<lambda>segmento.
        and_then (str_split1 segmento (py ''|'')) (\<lambda>pieces.
        and_then (list_index pieces 0) (\<lambda>piece.
        let posible = strip_chars (py ''.'') (strip piece)
        in Inr (if posible = [] then None else Some posible))))))"

definition extract_destino :: "pystr \<Rightarrow> py_error + pystr option" where
  "extract_destino text = extract_field text (py ''Destino deseado'')"

text \<open>
  The contract as the specification words it, for comparison with the code: the text
  between the first \<open>label:\<close> and the next \<open>|\<close> (or the end), trimmed of whitespace
  and of trailing periods; absent when the marker does not occur or nothing is left.
\<close>

definition extract_field_spec :: "pystr \<Rightarrow> pystr \<Rightarrow> pystr option" where
  "extract_field_spec text label =
     (case str_partition text (label @ py '':'') of
        None \<Rightarrow> None
      | Some (before, after) \<Rightarrow>
          (let segment = takeWhile (\<lambda>c. c \<noteq> 124) after;
               trimmed = rstrip_chars (py ''.'') (strip segment)
           in if trimmed = [] then None else Some trimmed))"

section \<open>Payloads and the world outside the program\<close>

subsection \<open>Parsed JSON payloads\<close>

text \<open>
  What \<^verbatim>\<open>response.json()\<close> returns: \<^verbatim>\<open>None\<close>, a bool, a number, a string, a list
  or a dict. A dict is the list of its items in insertion order. A number is the exact
  value of the Python int or finite float.
\<close>

datatype json =
  JNull | JBool bool | JNum rat | JStr pystr | JArr "json list" | JObj "(pystr \<times> json) list"

text \<open>Truth value of a Python object, as \<^verbatim>\<open>if not x\<close> and \<^verbatim>\<open>x or y\<close> test it.\<close>

fun truthy :: "json \<Rightarrow> bool" where
  "truthy JNull = False"
| "truthy (JBool b) = b"
| "truthy (JNum r) = (r \<noteq> 0)"
| "truthy (JStr s) = (s \<noteq> [])"
| "truthy (JArr xs) = (xs \<noteq> [])"
| "truthy (JObj kvs) = (kvs \<noteq> [])"

text \<open>Truth value of an \<^verbatim>\<open>Optional[str]\<close>: false for \<^verbatim>\<open>None\<close> and for the empty string.\<close>

fun present :: "pystr option \<Rightarrow> bool" where
  "present None = False"
| "present (Some s) = (s \<noteq> [])"

text \<open>\<^verbatim>\<open>d.get(key, default)\<close>: only a dict has the method.\<close>

definition dict_get :: "json \<Rightarrow> pystr \<Rightarrow> json \<Rightarrow> py_error + json" where
  "dict_get d key dflt =
     (case d of
        JObj kvs \<Rightarrow> Inr (case map_of kvs key of None \<Rightarrow> dflt | Some v \<Rightarrow> v)
      | _ \<Rightarrow> Inl AttributeError)"

text \<open>
  \<^verbatim>\<open>v[0]\<close>: the first element of a list or string (\<^verbatim>\<open>IndexError\<close> when empty); a dict
  parsed from JSON has string keys only, so the key \<open>0\<close> is missing; other values are
  not subscriptable.
\<close>

definition subscript0 :: "json \<Rightarrow> py_error + json" where
  "subscript0 v =
     (case v of
        JArr xs \<Rightarrow> (case xs of [] \<Rightarrow> Inl IndexError | x # _ \<Rightarrow> Inr x)
      | JStr s \<Rightarrow> (case s of [] \<Rightarrow> Inl IndexError | c # _ \<Rightarrow> Inr (JStr [c]))
      | JObj kvs \<Rightarrow> Inl KeyError
      | _ \<Rightarrow> Inl TypeError)"

text \<open>The items \<^verbatim>\<open>for item in v\<close> visits.\<close>

definition iterate :: "json \<Rightarrow> py_error + json list" where
  "iterate v =
     (case v of
        JArr xs \<Rightarrow> Inr xs
      | JStr s \<Rightarrow> Inr (map (\<lambda>c. JStr [c]) s)
      | JObj kvs \<Rightarrow> Inr (map (\<lambda>(k, _). JStr k) kvs)
      | _ \<Rightarrow> Inl TypeError)"

text \<open>\<^verbatim>\<open>next(iter(d.keys()))\<close>: the first key of a dict.\<close>

definition first_key :: "json \<Rightarrow> py_error + pystr" where
  "first_key d =
     (case d of
        JObj kvs \<Rightarrow> (case kvs of [] \<Rightarrow> Inl StopIteration | (k, _) # _ \<Rightarrow> Inr k)
      | _ \<Rightarrow> Inl AttributeError)"

subsection \<open>Requests, the language model and the environment\<close>

text \<open>
  An outbound \<^verbatim>\<open>requests.get(url, params=..., headers=..., timeout=...)\<close> and what
  comes back: the call raises a \<^verbatim>\<open>RequestException\<close> (no connection, timeout), or
  there is a response with a status code and a body that parses as JSON or does not.
\<close>

record request =
  url :: pystr
  params :: "(pystr \<times> pystr) list"
  headers :: "(pystr \<times> pystr) list"
  timeout :: nat

datatype http_result = RequestFailed | Response nat "json option"

text \<open>The outcome of \<^verbatim>\<open>model.generate_content(...)\<close> followed by \<^verbatim>\<open>completion.text\<close>.\<close>

datatype generation = GenerationFailed | Generated "pystr option"

text \<open>What varies in the prompt sent to the language model (the fixed wording is left out).\<close>

record prompt =
  pr_context :: pystr
  pr_history :: "(pystr \<times> pystr option) list"
  pr_weather :: "(pystr \<times> pystr list) option"

text \<open>
  Everything a request handler reads from outside the program: environment variables,
  the network, the language model, the clocks, and the functions of the Python library
  whose tables are not reproduced here (\<^verbatim>\<open>str.upper\<close>, \<^verbatim>\<open>str.capitalize\<close>,
  \<^verbatim>\<open>format(x, spec)\<close> for a number, \<^verbatim>\<open>str(x)\<close>). \<open>zone_offset\<close> is the current UTC
  offset in seconds of a named time zone (\<open>None\<close> when \<^verbatim>\<open>ZoneInfo\<close> rejects the name),
  \<open>clock_text\<close> the wall-clock time \<^verbatim>\<open>HH:MM\<close> at a UTC offset in seconds.
\<close>

record world =
  getenv :: "pystr \<Rightarrow> pystr option"
  http_get :: "request \<Rightarrow> http_result"
  image_get :: "json \<Rightarrow> bool"
  generate_content :: "pystr \<Rightarrow> prompt \<Rightarrow> generation"
  utcnow_iso :: pystr
  zone_offset :: "pystr \<Rightarrow> int option"
  clock_text :: "rat \<Rightarrow> pystr"
  str_upper :: "pystr \<Rightarrow> pystr"
  str_capitalize :: "pystr \<Rightarrow> pystr"
  format_float :: "pystr \<Rightarrow> rat \<Rightarrow> pystr"
  str_of :: "json \<Rightarrow> pystr"

text \<open>
  The body of each adapter's \<^verbatim>\<open>try\<close> block:
  \<^verbatim>\<open>
      try:
          response = requests.get(...)
          response.raise_for_status()
          data = response.json()
      except requests.RequestException:
          return <absent>
  \<close>
  \<^verbatim>\<open>raise_for_status\<close> raises for the status codes 400 to 599, and a body that is not
  JSON raises the \<^verbatim>\<open>RequestException\<close> subclass \<^verbatim>\<open>JSONDecodeError\<close>; \<open>None\<close> stands
  for the \<^verbatim>\<open>except\<close> branch.
\<close>

definition fetch_json :: "world \<Rightarrow> request \<Rightarrow> json option" where
  "fetch_json w req =
     (case http_get w req of
        RequestFailed \<Rightarrow> None
      | Response status body \<Rightarrow> if 400 \<le> status \<and> status < 600 then None else body)"

text \<open>\<^verbatim>\<open>f"{x}"\<close>: a string is inserted as it is, any other value through \<^verbatim>\<open>str\<close>.\<close>

definition fstring :: "world \<Rightarrow> json \<Rightarrow> pystr" where
  "fstring w v = (case v of JStr s \<Rightarrow> s | _ \<Rightarrow> str_of w v)"

text \<open>
  \<^verbatim>\<open>f"{x:spec}"\<close> with a float presentation type (\<^verbatim>\<open>.0f\<close>, \<^verbatim>\<open>,.2f\<close>): numbers and
  bools are formatted, a string raises \<^verbatim>\<open>ValueError\<close>, \<^verbatim>\<open>None\<close>, lists and dicts
  raise \<^verbatim>\<open>TypeError\<close>.
\<close>

definition format_number :: "world \<Rightarrow> pystr \<Rightarrow> json \<Rightarrow> py_error + pystr" where
  "format_number w spec v =
     (case v of
        JNum r \<Rightarrow> Inr (format_float w spec r)
      | JBool b \<Rightarrow> Inr (format_float w spec (if b then 1 else 0))
      | JStr s \<Rightarrow> Inl ValueError
      | _ \<Rightarrow> Inl TypeError)"

text \<open>\<^verbatim>\<open>v.capitalize()\<close>: only a string has the method.\<close>

definition capitalize :: "world \<Rightarrow> json \<Rightarrow> py_error + pystr" where
  "capitalize w v = (case v of JStr s \<Rightarrow> Inr (str_capitalize w s) | _ \<Rightarrow> Inl AttributeError)"

text \<open>\<^verbatim>\<open>sep.join(parts)\<close>.\<close>

fun join :: "pystr \<Rightarrow> pystr list \<Rightarrow> pystr" where
  "join sep [] = []"
| "join sep [s] = s"
| "join sep (s # t # ts) = s @ sep @ join sep (t # ts)"

section \<open>Provider adapters\<close>

text \<open>
  Each adapter returns the outbound requests it made (none, or one) together with its
  result; \<open>Inl\<close> is an exception that leaves the adapter.
\<close>

record weather_data =
  wd_summary :: pystr
  wd_temperature :: json
  wd_feels_like :: json
  wd_humidity :: json
  wd_wind :: json
  wd_country :: json
  wd_timezone_offset :: json
  wd_city :: json

text \<open>
  Lines 115 to 126 of \<^verbatim>\<open>get_weather_data\<close>, after the \<^verbatim>\<open>try\<close> block:
  \<^verbatim>\<open>
      weather = data.get("weather", [{}])[0]
      main = data.get("main", {})
      return {
          "summary": weather.get("description", "").capitalize(),
          "temperature": main.get("temp"),
          "feels_like": main.get("feels_like"),
          "humidity": main.get("humidity"),
          "wind": data.get("wind", {}).get("speed"),
          "country": data.get("sys", {}).get("country"),
          "timezone_offset": data.get("timezone"),
          "city": data.get("name") or destino,
      }
  \<close>
\<close>

definition weather_snapshot :: "world \<Rightarrow> json \<Rightarrow> pystr \<Rightarrow> py_error + weather_data" where
  "weather_snapshot w data destino =
     and_then (dict_get data (py ''weather'') (JArr [JObj []])) (\<lambda>entries.
     and_then (subscript0 entries) (\<lambda>weather.
     and_then (dict_get data (py ''main'') (JObj [])) (\<lambda>main.
     and_then (dict_get weather (py ''description'') (JStr [])) (\<lambda>description.
     and_then (capitalize w description) (\<lambda>summary.
     and_then (dict_get main (py ''temp'') JNull) (\<lambda>temp.
     and_then (dict_get main (py ''feels_like'') JNull) (\<lambda>feels.
     and_then (dict_get main (py ''humidity'') JNull) (\<lambda>hum.
     and_then (dict_get data (py ''wind'') (JObj [])) (\<lambda>wind.
     and_then (dict_get wind (py ''speed'') JNull) (\<lambda>speed.
     and_then (dict_get data (py ''sys'') (JObj [])) (\<lambda>sys.
     and_then (dict_get sys (py ''country'') JNull) (\<lambda>ctry.
     and_then (dict_get data (py ''timezone'') JNull) (\<lambda>tz.
     and_then (dict_get data (py ''name'') JNull) (\<lambda>name.
       Inr \<lparr>wd_summary = summary, wd_temperature = temp, wd_feels_like = feels,
            wd_humidity = hum, wd_wind = speed, wd_country = ctry,
            wd_timezone_offset = tz,
            wd_city = (if truthy name then name else JStr destino)\<rparr>))))))))))))))"

text \<open>
  \<^verbatim>\<open>
  def get_weather_data(destino: Optional[str]) -> Optional[dict]:
      api_key = os.getenv("OPENWEATHER_API_KEY")
      if not api_key or not destino:
          return None
      params = {"q": destino, "appid": api_key, "units": "metric", "lang": "es"}
      try:
          response = requests.get(
              "https://api.openweathermap.org/data/2.5/weather", params=params, timeout=8)
          ...
  \<close>
\<close>

definition weather_request :: "pystr \<Rightarrow> pystr \<Rightarrow> request" where
  "weather_request api_key destino =
     \<lparr>url = py ''https://api.openweathermap.org/data/2.5/weather'',
      params = [(py ''q'', destino), (py ''appid'', api_key),
                (py ''units'', py ''metric''), (py ''lang'', py ''es'')],
      headers = [], timeout = 8\<rparr>"

definition get_weather_data ::
    "world \<Rightarrow> pystr option \<Rightarrow> request list \<times> (py_error + weather_data option)" where
  "get_weather_data w destino =
     (case (getenv w (py ''OPENWEATHER_API_KEY''), destino) of
        (Some api_key, Some d) \<Rightarrow>
          if api_key = [] \<or> d = [] then ([], Inr None)
          else
            (let req = weather_request api_key d
             in ([req],
                 case fetch_json w req of
                   None \<Rightarrow> Inr None
                 | Some data \<Rightarrow> and_then (weather_snapshot w data d) (\<lambda>wd. Inr (Some wd))))
      | _ \<Rightarrow> ([], Inr None))"

text \<open>
  The loop of \<^verbatim>\<open>get_destination_photos\<close>:
  \<^verbatim>\<open>
      urls = []
      for item in results:
          url = item.get("urls", {}).get("regular")
          if url:
              urls.append(url)
      return urls
  \<close>
\<close>

fun photo_urls :: "json list \<Rightarrow> py_error + json list" where
  "photo_urls [] = Inr []"
| "photo_urls (item # rest) =
     and_then (dict_get item (py ''urls'') (JObj [])) (\<lambda>sizes.
     and_then (dict_get sizes (py ''regular'') JNull) (\<lambda>u.
     and_then (photo_urls rest) (\<lambda>urls.
       Inr (if truthy u then u # urls else urls))))"

text \<open>
  \<^verbatim>\<open>
  def get_destination_photos(destino: Optional[str]) -> List[str]:
      api_key = os.getenv("UNSPLASH_ACCESS_KEY")
      if not api_key or not destino:
          return []
      params = {"query": destino, "per_page": 3, "orientation": "landscape"}
      headers = {"Accept-Version": "v1", "Authorization": f"Client-ID {api_key}"}
      try:
          response = requests.get("https://api.unsplash.com/search/photos",
                                  params=params, headers=headers, timeout=8)
          ...
      except requests.RequestException:
          return []
      results = data.get("results", [])
      ...
  \<close>
\<close>

definition photos_request :: "pystr \<Rightarrow> pystr \<Rightarrow> request" where
  "photos_request api_key destino =
     \<lparr>url = py ''https://api.unsplash.com/search/photos'',
      params = [(py ''query'', destino), (py ''per_page'', py ''3''),
                (py ''orientation'', py ''landscape'')],
      headers = [(py ''Accept-Version'', py ''v1''),
                 (py ''Authorization'', py ''Client-ID '' @ api_key)],
      timeout = 8\<rparr>"

definition get_destination_photos ::
    "world \<Rightarrow> pystr option \<Rightarrow> request list \<times> (py_error + json list)" where
  "get_destination_photos w destino =
     (case (getenv w (py ''UNSPLASH_ACCESS_KEY''), destino) of
        (Some api_key, Some d) \<Rightarrow>
          if api_key = [] \<or> d = [] then ([], Inr [])
          else
            (let req = photos_request api_key d
             in ([req],
                 case fetch_json w req of
                   None \<Rightarrow> Inr []
                 | Some data \<Rightarrow>
                     and_then (dict_get data (py ''results'') (JArr [])) (\<lambda>results.
                     and_then (iterate results) photo_urls)))
      | _ \<Rightarrow> ([], Inr []))"

text \<open>
  \<^verbatim>\<open>
  def get_currency_code(country_code: Optional[str]) -> Optional[str]:
      if not country_code:
          return None
      try:
          response = requests.get(f"https://restcountries.com/v3.1/alpha/{country_code}",
                                  params={"fields": "currencies"}, timeout=8)
          ...
      except requests.RequestException:
          return None
      if not data:
          return None
      currencies = data[0].get("currencies")
      if not currencies:
          return None
      return next(iter(currencies.keys()))
  \<close>
  The caller passes whatever the weather payload held under \<^verbatim>\<open>sys.country\<close>, so the
  argument is a JSON value.
\<close>

definition currency_request :: "pystr \<Rightarrow> request" where
  "currency_request code =
     \<lparr>url = py ''https://restcountries.com/v3.1/alpha/'' @ code,
      params = [(py ''fields'', py ''currencies'')], headers = [], timeout = 8\<rparr>"

definition get_currency_code ::
    "world \<Rightarrow> json \<Rightarrow> request list \<times> (py_error + pystr option)" where
  "get_currency_code w country_code =
     (if \<not> truthy country_code then ([], Inr None)
      else
        (let req = currency_request (fstring w country_code)
         in ([req],
             case fetch_json w req of
               None \<Rightarrow> Inr None
             | Some data \<Rightarrow>
                 if \<not> truthy data then Inr None
                 else
                   and_then (subscript0 data) (\<lambda>first.
                   and_then (dict_get first (py ''currencies'') JNull) (\<lambda>currencies.
                     if \<not> truthy currencies then Inr None
                     else and_then (first_key currencies) (\<lambda>k. Inr (Some k)))))))"

subsection \<open>Panel sections\<close>

record panel_section =
  ps_label :: pystr
  ps_value :: pystr
  ps_description :: "pystr option"

record panel_info =
  pi_currency :: "panel_section option"
  pi_time :: "panel_section option"
  pi_weather :: "panel_section option"

text \<open>
  \<^verbatim>\<open>
  def get_exchange_rate(target_currency: Optional[str]) -> Optional[PanelSection]:
      if not target_currency:
          return None
      base_currency = os.getenv("HOME_CURRENCY", "USD").upper()
      target_currency = target_currency.upper()
      if base_currency == target_currency:
          return PanelSection(label="Tipo de cambio", value=f"Usas {base_currency}",
              description="La moneda local coincide con tu moneda base.")
      try:
          response = requests.get(f"https://open.er-api.com/v6/latest/{base_currency}", timeout=8)
          ...
      except requests.RequestException:
          return None
      rate = data.get("rates", {}).get(target_currency)
      if rate is None:
          return None
      return PanelSection(label="Tipo de cambio",
          value=f"1 {base_currency} (approx) {rate:,.2f} {target_currency}",
          description="Tasa en tiempo real cortes(i)a de open.er-api.com")
  \<close>
  The code point 8776 is the sign \<open>\<approx>\<close> written (approx) above, 237 the accented i.
\<close>

definition home_currency :: "world \<Rightarrow> pystr" where
  "home_currency w =
     str_upper w (case getenv w (py ''HOME_CURRENCY'') of None \<Rightarrow> py ''USD'' | Some v \<Rightarrow> v)"

definition rate_request :: "pystr \<Rightarrow> request" where
  "rate_request base_currency =
     \<lparr>url = py ''https://open.er-api.com/v6/latest/'' @ base_currency,
      params = [], headers = [], timeout = 8\<rparr>"

definition same_currency_section :: "pystr \<Rightarrow> panel_section" where
  "same_currency_section base_currency =
     \<lparr>ps_label = py ''Tipo de cambio'',
      ps_value = py ''Usas '' @ base_currency,
      ps_description = Some (py ''La moneda local coincide con tu moneda base.'')\<rparr>"

definition rate_section :: "pystr \<Rightarrow> pystr \<Rightarrow> pystr \<Rightarrow> panel_section" where
  "rate_section base_currency rate_text target =
     \<lparr>ps_label = py ''Tipo de cambio'',
      ps_value = py ''1 '' @ base_currency @ [32, 8776, 32] @ rate_text @ [32] @ target,
      ps_description =
        Some (py ''Tasa en tiempo real cortes'' @ [237] @ py ''a de open.er-api.com'')\<rparr>"

definition get_exchange_rate ::
    "world \<Rightarrow> pystr option \<Rightarrow> request list \<times> (py_error + panel_section option)" where
  "get_exchange_rate w target_currency =
     (case target_currency of
        None \<Rightarrow> ([], Inr None)
      | Some t \<Rightarrow>
          if t = [] then ([], Inr None)
          else
            (let base_currency = home_currency w;
                 target = str_upper w t
             in if base_currency = target
                then ([], Inr (Some (same_currency_section base_currency)))
                else
                  (let req = rate_request base_currency
                   in ([req],
                       case fetch_json w req of
                         None \<Rightarrow> Inr None
                       | Some data \<Rightarrow>
                           and_then (dict_get data (py ''rates'') (JObj [])) (\<lambda>rates.
                           and_then (dict_get rates target JNull) (\<lambda>rate.
                             if rate = JNull then Inr None
                             else
                               and_then (format_number w (py '',.2f'') rate) (\<lambda>rate_text.
                                 Inr (Some (rate_section base_currency rate_text target)))))))))"

text \<open>The number a JSON value stands for where Python expects one (a bool counts as 0 or 1).\<close>

definition number_of :: "json \<Rightarrow> rat option" where
  "number_of v =
     (case v of JNum r \<Rightarrow> Some r | JBool b \<Rightarrow> Some (if b then 1 else 0) | _ \<Rightarrow> None)"

text \<open>
  \<^verbatim>\<open>
  def get_time_difference_info(offset_seconds: Optional[int]) -> Optional[PanelSection]:
      if offset_seconds is None:
          return None
      home_timezone_name = os.getenv("HOME_TIMEZONE", "UTC")
      try:
          home_tz = ZoneInfo(home_timezone_name)
      except Exception:
          home_tz = timezone.utc
          home_timezone_name = "UTC"
      home_now = datetime.now(home_tz)
      home_offset = home_now.utcoffset() or timedelta(0)
      destination_tz = timezone(timedelta(seconds=offset_seconds))
      destination_now = datetime.now(destination_tz)
      diff_hours = (offset_seconds - home_offset.total_seconds()) / 3600
      sign = "+" if diff_hours >= 0 else "-"
      diff_text = f"{sign}{abs(diff_hours):.1f} h"
      description = (f"Destino {destination_now.strftime('%H:%M')} (dot) tu zona "
                     f"{home_now.strftime('%H:%M')} ({home_timezone_name})")
      return PanelSection(label="Diferencia horaria", value=diff_text, description=description)
  \<close>
  \<^verbatim>\<open>timedelta(seconds=x)\<close> raises \<^verbatim>\<open>TypeError\<close> unless \<open>x\<close> is a number and
  \<^verbatim>\<open>OverflowError\<close> when \<open>x\<close> is more than 999999999 days in either direction;
  \<^verbatim>\<open>timezone\<close> raises \<^verbatim>\<open>ValueError\<close> unless the offset is strictly between minus and
  plus 24 hours. The rounding of \<open>x\<close> to microseconds is left out. The code point 183
  is the middle dot of the description.
\<close>

definition get_time_difference_info :: "world \<Rightarrow> json \<Rightarrow> py_error + panel_section option" where
  "get_time_difference_info w offset_seconds =
     (if offset_seconds = JNull then Inr None
      else
        (let configured =
               (case getenv w (py ''HOME_TIMEZONE'') of None \<Rightarrow> py ''UTC'' | Some v \<Rightarrow> v);
             home =
               (case zone_offset w configured of
                  None \<Rightarrow> (0, py ''UTC'')
                | Some off \<Rightarrow> (off, configured));
             home_offset = rat_of_int (fst home);
             home_timezone_name = snd home
         in case number_of offset_seconds of
              None \<Rightarrow> Inl TypeError
            | Some secs \<Rightarrow>
                if \<lfloor>secs / 86400\<rfloor> < - 999999999 \<or> 999999999 < \<lfloor>secs / 86400\<rfloor>
                then Inl OverflowError
                else if \<not> (- 86400 < secs \<and> secs < 86400) then Inl ValueError
                else
                  (let diff_hours = (secs - home_offset) / 3600;
                       sign = (if diff_hours \<ge> 0 then py ''+'' else py ''-'');
                       diff_text = sign @ format_float w (py ''.1f'') \<bar>diff_hours\<bar> @ py '' h'';
                       description =
                         py ''Destino '' @ clock_text w secs @ [32, 183, 32] @ py ''tu zona '' @
                         clock_text w home_offset @ py '' ('' @ home_timezone_name @ py '')''
                   in Inr (Some \<lparr>ps_label = py ''Diferencia horaria'', ps_value = diff_text,
                                  ps_description = Some description\<rparr>))))"

text \<open>
  \<^verbatim>\<open>
  def format_weather_section(weather_data: Optional[dict]) -> Optional[PanelSection]:
      if not weather_data:
          return None
      temp = weather_data.get("temperature")
      summary = weather_data.get("summary")
      feels = weather_data.get("feels_like")
      value = f"{temp:.0f} (deg)C" if temp is not None else summary or "N/D"
      description_parts = []
      if summary:
          description_parts.append(summary)
      if feels is not None:
          description_parts.append(f"Sensaci(o)n {feels:.0f} (deg)C")
      if weather_data.get("humidity") is not None:
          description_parts.append(f"Humedad {weather_data['humidity']}%")
      description = ". ".join(description_parts) if description_parts else None
      return PanelSection(label="Temperatura actual", value=value, description=description)
  \<close>
  The dict \<^verbatim>\<open>get_weather_data\<close> returns always has its eight keys, so it is never an
  empty dict and \<^verbatim>\<open>not weather_data\<close> holds for \<^verbatim>\<open>None\<close> only. The code point 176 is
  the degree sign, 243 the accented o.
\<close>

definition celsius :: "world \<Rightarrow> json \<Rightarrow> py_error + pystr" where
  "celsius w v = and_then (format_number w (py ''.0f'') v) (\<lambda>t. Inr (t @ [32, 176] @ py ''C''))"

definition format_weather_section ::
    "world \<Rightarrow> weather_data option \<Rightarrow> py_error + panel_section option" where
  "format_weather_section w weather_data =
     (case weather_data of
        None \<Rightarrow> Inr None
      | Some wd \<Rightarrow>
          (let temp = wd_temperature wd;
               summary = wd_summary wd;
               feels = wd_feels_like wd
           in and_then (if temp \<noteq> JNull then celsius w temp
                        else Inr (if summary \<noteq> [] then summary else py ''N/D'')) (\<lambda>shown.
              and_then (if feels \<noteq> JNull
                        then and_then (celsius w feels) (\<lambda>t.
                               Inr [py ''Sensaci'' @ [243] @ py ''n '' @ t])
                        else Inr []) (\<lambda>feels_part.
                (let description_parts =
                       (if summary \<noteq> [] then [summary] else []) @ feels_part @
                       (if wd_humidity wd \<noteq> JNull
                        then [py ''Humedad '' @ fstring w (wd_humidity wd) @ py ''%'']
                        else []);
                     description =
                       (if description_parts \<noteq> [] then Some (join (py ''. '') description_parts)
                        else None)
                 in Inr (Some \<lparr>ps_label = py ''Temperatura actual'', ps_value = shown,
                                ps_description = description\<rparr>))))))"

section \<open>Line wrapping\<close>

text \<open>
  \<^verbatim>\<open>text.split()\<close>: the maximal runs of non-whitespace code points, in order. \<open>cur\<close> is
  the word read so far.
\<close>

fun split_words :: "pystr \<Rightarrow> pystr \<Rightarrow> pystr list" where
  "split_words cur [] = (if cur = [] then [] else [cur])"
| "split_words cur (c # cs) =
     (if isspace c then (if cur = [] then split_words [] cs else cur # split_words [] cs)
      else split_words (cur @ [c]) cs)"

definition str_split :: "pystr \<Rightarrow> pystr list" where
  "str_split s = split_words [] s"

text \<open>A word: not empty and free of whitespace.\<close>

definition is_word :: "pystr \<Rightarrow> bool" where
  "is_word w \<longleftrightarrow> w \<noteq> [] \<and> list_all (\<lambda>c. \<not> isspace c) w"

text \<open>
  \<^verbatim>\<open>
  def wrap_text(text: str, width: int = 90) -> List[str]:
      words = text.split()
      lines: List[str] = []
      current = []
      current_len = 0
      for word in words:
          if current_len + len(word) + (1 if current else 0) > width:
              lines.append(" ".join(current))
              current = [word]
              current_len = len(word)
          else:
              current.append(word)
              current_len += len(word) + (1 if current_len else 0)
      if current:
          lines.append(" ".join(current))
      return lines or [text]
  \<close>
  The loop state is \<open>(lines, current, current_len)\<close>.
\<close>

fun wrap_loop ::
    "int \<Rightarrow> pystr list \<Rightarrow> pystr list \<times> pystr list \<times> int \<Rightarrow> pystr list \<times> pystr list \<times> int" where
  "wrap_loop width [] state = state"
| "wrap_loop width (word # rest) (lines, current, current_len) =
     (if current_len + int (length word) + (if current \<noteq> [] then 1 else 0) > width
      then wrap_loop width rest (lines @ [join [32] current], [word], int (length word))
      else wrap_loop width rest
             (lines, current @ [word],
              current_len + (int (length word) + (if current_len \<noteq> 0 then 1 else 0))))"

definition wrap_text :: "pystr \<Rightarrow> int \<Rightarrow> pystr list" where
  "wrap_text text width =
     (case wrap_loop width (str_split text) ([], [], 0) of
        (lines, current, current_len) \<Rightarrow>
          (let finished = (if current \<noteq> [] then lines @ [join [32] current] else lines)
           in if finished = [] then [text] else finished))"

section \<open>Conversation store and the chat handler\<close>

text \<open>
  The pydantic models of the handler. The field names of each record carry a prefix,
  since several of the classes share field names.
\<close>

record history_entry =
  he_pregunta :: pystr
  he_respuesta :: "pystr option"
  he_destino :: "pystr option"
  he_timestamp :: pystr

record plan_request =
  rq_pregunta :: pystr
  rq_session_id :: "pystr option"

record plan_response =
  rs_respuesta :: pystr
  rs_fotos :: "json list"
  rs_panel :: panel_info
  rs_history :: "history_entry list"
  rs_favorites :: "pystr list"

text \<open>The two module-level dicts, empty when the process starts.\<close>

record store =
  conversation_store :: "pystr \<rightharpoonup> history_entry list"
  favorites_store :: "pystr \<rightharpoonup> pystr list"

definition empty_store :: store where
  "empty_store = \<lparr>conversation_store = Map.empty, favorites_store = Map.empty\<rparr>"

text \<open>\<^verbatim>\<open>conversation_store.get(session_id, [])\<close>.\<close>

definition history_of :: "store \<Rightarrow> pystr \<Rightarrow> history_entry list" where
  "history_of st session_id =
     (case conversation_store st session_id of None \<Rightarrow> [] | Some h \<Rightarrow> h)"

text \<open>\<^verbatim>\<open>xs[-n:]\<close>: the last \<open>n\<close> elements, all of them when there are fewer.\<close>

definition last_n :: "nat \<Rightarrow> 'a list \<Rightarrow> 'a list" where
  "last_n n xs = drop (length xs - n) xs"

text \<open>
  Lines 399 and 400 of \<^verbatim>\<open>plan_trip\<close>:
  \<^verbatim>\<open>
      updated_history = history_entries + [entry]
      conversation_store[session_id] = updated_history[-10:]
  \<close>
\<close>

definition append_entry :: "store \<Rightarrow> pystr \<Rightarrow> history_entry \<Rightarrow> store" where
  "append_entry st session_id entry =
     (let updated_history = history_of st session_id @ [entry]
      in st\<lparr>conversation_store := (conversation_store st)(session_id \<mapsto> last_n 10 updated_history)\<rparr>)"

text \<open>
  \<^verbatim>\<open>
  def _get_gemini_model() -> genai.GenerativeModel:
      api_key = os.getenv("GEMINI_API_KEY") or os.getenv("GOOGLE_API_KEY")
      if not api_key:
          raise HTTPException(status_code=500, detail="...")
      genai.configure(api_key=api_key)
      model_name = os.getenv("GEMINI_MODEL", "gemini-1.5-flash")
      return genai.GenerativeModel(model_name)
  \<close>
  The model is known by its name.
\<close>

definition get_gemini_model :: "world \<Rightarrow> py_error + pystr" where
  "get_gemini_model w =
     (if present (getenv w (py ''GEMINI_API_KEY'')) \<or> present (getenv w (py ''GOOGLE_API_KEY''))
      then Inr (case getenv w (py ''GEMINI_MODEL'') of
                  None \<Rightarrow> py ''gemini-1.5-flash''
                | Some m \<Rightarrow> m)
      else Inl (HTTPException 500))"

text \<open>
  Lines 316 to 318:
  \<^verbatim>\<open>
      destino = extract_destino(payload.pregunta)
      if not destino and history_entries:
          destino = history_entries[-1].destino
  \<close>
\<close>

definition plan_destino :: "pystr \<Rightarrow> history_entry list \<Rightarrow> py_error + pystr option" where
  "plan_destino pregunta history_entries =
     and_then (extract_destino pregunta) (\<lambda>destino.
       Inr (if \<not> present destino \<and> history_entries \<noteq> []
            then he_destino (last history_entries) else destino))"

text \<open>
  Lines 355 to 368, the weather sentence of the prompt:
  \<^verbatim>\<open>
      if weather_data and destino:
          weather_bits = []
          if weather_data.get("summary"):
              weather_bits.append(weather_data["summary"])
          if weather_data.get("temperature") is not None:
              weather_bits.append(f"{weather_data['temperature']:.0f} (deg)C")
          if weather_data.get("humidity") is not None:
              weather_bits.append(f"Humedad {weather_data['humidity']}%")
          if weather_bits:
              prompt += (f"\nInformaci(o)n de clima actual para {destino}: " + ", ".join(weather_bits))
  \<close>
\<close>

definition prompt_weather ::
    "world \<Rightarrow> weather_data option \<Rightarrow> pystr option \<Rightarrow> py_error + (pystr \<times> pystr list) option" where
  "prompt_weather w weather_data destino =
     (case (weather_data, destino) of
        (Some wd, Some d) \<Rightarrow>
          if d = [] then Inr None
          else
            and_then (if wd_temperature wd \<noteq> JNull
                      then and_then (celsius w (wd_temperature wd)) (\<lambda>t. Inr [t])
                      else Inr []) (\<lambda>temp_bit.
              (let weather_bits =
                     (if wd_summary wd \<noteq> [] then [wd_summary wd] else []) @ temp_bit @
                     (if wd_humidity wd \<noteq> JNull
                      then [py ''Humedad '' @ fstring w (wd_humidity wd) @ py ''%'']
                      else [])
               in Inr (if weather_bits \<noteq> [] then Some (d, weather_bits) else None)))
      | _ \<Rightarrow> Inr None)"

definition fallback_respuesta :: pystr where
  "fallback_respuesta =
     py ''No recibimos una respuesta clara, intenta describir un poco m'' @ [225] @
     py ''s tu viaje.''"

text \<open>
  Lines 370 to 385:
  \<^verbatim>\<open>
      try:
          completion = model.generate_content(["Act(u)a como planificador ...", prompt])
          respuesta = (completion.text or "").strip()
      except Exception as exc:
          raise HTTPException(status_code=502, detail=...) from exc
      if not respuesta:
          respuesta = "No recibimos una respuesta clara, intenta describir un poco m(a)s tu viaje."
  \<close>
\<close>

definition ask_model :: "world \<Rightarrow> pystr \<Rightarrow> prompt \<Rightarrow> py_error + pystr" where
  "ask_model w model p =
     (case generate_content w model p of
        GenerationFailed \<Rightarrow> Inl (HTTPException 502)
      | Generated t \<Rightarrow>
          (let respuesta = strip (case t of None \<Rightarrow> [] | Some s \<Rightarrow> s)
           in Inr (if respuesta = [] then fallback_respuesta else respuesta)))"

text \<open>
  Lines 320 to 409 of \<^verbatim>\<open>plan_trip\<close>, everything after the destination is known:
  \<^verbatim>\<open>
      weather_data = get_weather_data(destino)
      fotos = get_destination_photos(destino)
      country_code = weather_data.get("country") if weather_data else None
      currency_code = get_currency_code(country_code)
      currency_section = get_exchange_rate(currency_code)
      timezone_offset = weather_data.get("timezone_offset") if weather_data else None
      time_section = get_time_difference_info(timezone_offset)
      weather_section = format_weather_section(weather_data)
      ... (prompt, model call) ...
      panel = PanelInfo(currency=currency_section, time=time_section, weather=weather_section)
      entry = HistoryEntry(pregunta=payload.pregunta, respuesta=respuesta, destino=destino,
                           timestamp=datetime.utcnow().isoformat() + "Z")
      updated_history = history_entries + [entry]
      conversation_store[session_id] = updated_history[-10:]
      favorites = favorites_store.get(session_id, [])
      return {"respuesta": respuesta, "fotos": fotos, "panel": panel,
              "history": conversation_store[session_id], "favorites": favorites}
  \<close>
\<close>

definition plan_with_destino ::
    "world \<Rightarrow> store \<Rightarrow> plan_request \<Rightarrow> pystr \<Rightarrow> pystr \<Rightarrow> pystr option \<Rightarrow>
     py_error + (plan_response \<times> store)" where
  "plan_with_destino w st payload session_id model destino =
     (let history_entries = history_of st session_id in
      and_then (snd (get_weather_data w destino)) (\<lambda>weather_data.
      and_then (snd (get_destination_photos w destino)) (\<lambda>fotos.
      and_then (snd (get_currency_code w
                  (case weather_data of None \<Rightarrow> JNull | Some wd \<Rightarrow> wd_country wd))) (\<lambda>currency_code.
      and_then (snd (get_exchange_rate w currency_code)) (\<lambda>currency_section.
      and_then (get_time_difference_info w
                  (case weather_data of None \<Rightarrow> JNull | Some wd \<Rightarrow> wd_timezone_offset wd)) (\<lambda>time_section.
      and_then (format_weather_section w weather_data) (\<lambda>weather_section.
      and_then (prompt_weather w weather_data destino) (\<lambda>weather_bits.
      and_then (ask_model w model
                  \<lparr>pr_context = rq_pregunta payload,
                   pr_history = map (\<lambda>e. (he_pregunta e, he_respuesta e)) (last_n 5 history_entries),
                   pr_weather = weather_bits\<rparr>) (\<lambda>respuesta.
        (let panel = \<lparr>pi_currency = currency_section, pi_time = time_section,
                      pi_weather = weather_section\<rparr>;
             entry = \<lparr>he_pregunta = rq_pregunta payload, he_respuesta = Some respuesta,
                      he_destino = destino, he_timestamp = utcnow_iso w @ py ''Z''\<rparr>;
             st' = append_entry st session_id entry
         in Inr (\<lparr>rs_respuesta = respuesta, rs_fotos = fotos, rs_panel = panel,
                   rs_history = history_of st' session_id,
                   rs_favorites =
                     (case favorites_store st session_id of None \<Rightarrow> [] | Some f \<Rightarrow> f)\<rparr>,
                 st')))))))))))"

text \<open>
  \<^verbatim>\<open>
  @app.post("/plan", response_model=PlanResponse)
  async def plan_trip(payload: PlanRequest):
      session_id = payload.session_id or "anon"
      history_entries = conversation_store.get(session_id, [])
      model = _get_gemini_model()
      destino = extract_destino(payload.pregunta)
      if not destino and history_entries:
          destino = history_entries[-1].destino
      ...
  \<close>
\<close>

definition session_of :: "plan_request \<Rightarrow> pystr" where
  "session_of payload =
     (case rq_session_id payload of
        None \<Rightarrow> py ''anon''
      | Some s \<Rightarrow> if s \<noteq> [] then s else py ''anon'')"

definition plan_trip :: "world \<Rightarrow> store \<Rightarrow> plan_request \<Rightarrow> py_error + (plan_response \<times> store)" where
  "plan_trip w st payload =
     (let session_id = session_of payload;
          history_entries = history_of st session_id
      in and_then (get_gemini_model w) (\<lambda>model.
         and_then (plan_destino (rq_pregunta payload) history_entries) (\<lambda>destino.
           plan_with_destino w st payload session_id model destino)))"

text \<open>
  The server handling a sequence of \<^verbatim>\<open>/plan\<close> requests, each in the world of its own
  moment; a request that ends in an exception leaves the store as it was. No other
  endpoint writes to the conversation store.
\<close>

fun serve :: "store \<Rightarrow> (world \<times> plan_request) list \<Rightarrow> store" where
  "serve st [] = st"
| "serve st ((w, payload) # rest) =
     (case plan_trip w st payload of
        Inl e \<Rightarrow> serve st rest
      | Inr (response, st') \<Rightarrow> serve st' rest)"

text \<open>The invariant of the conversation store: no history is longer than 10 entries.\<close>

definition bounded :: "store \<Rightarrow> bool" where
  "bounded st \<longleftrightarrow> (\<forall>s. length (history_of st s) \<le> 10)"

section \<open>Itinerary renderer\<close>

text \<open>
  What the handler draws on the pages of the document. A string or a text line is drawn
  in a font (name and size) with its baseline starting at \<open>(x, y)\<close>; \<open>y\<close> grows
  upwards from the bottom edge of the page. Lengths are in points, as exact rationals:
  the floating-point heights of the program differ from them by rounding errors only,
  far less than the distances to the margin that matter below.
\<close>

datatype draw_op =
  DrawString pystr rat rat rat pystr
| DrawLine rat rat rat rat
| DrawTextLine pystr rat rat rat pystr
| DrawImage json rat rat rat rat

text \<open>
  The canvas: the pages finished by \<^verbatim>\<open>showPage\<close>, the page being drawn, and the
  current font.
\<close>

record canvas =
  cv_pages :: "draw_op list list"
  cv_page :: "draw_op list"
  cv_font :: "pystr \<times> rat"

text \<open>\<^verbatim>\<open>canvas.Canvas(buffer, pagesize=letter)\<close>; the initial font is Helvetica 12.\<close>

definition new_canvas :: canvas where
  "new_canvas = \<lparr>cv_pages = [], cv_page = [], cv_font = (py ''Helvetica'', 12)\<rparr>"

definition page_width :: rat where
  "page_width = 612"

definition page_height :: rat where
  "page_height = 792"

definition set_font :: "canvas \<Rightarrow> pystr \<Rightarrow> rat \<Rightarrow> canvas" where
  "set_font pdf name pt = pdf\<lparr>cv_font := (name, pt)\<rparr>"

definition draw_string :: "canvas \<Rightarrow> rat \<Rightarrow> rat \<Rightarrow> pystr \<Rightarrow> canvas" where
  "draw_string pdf x y s =
     pdf\<lparr>cv_page := cv_page pdf @ [DrawString (fst (cv_font pdf)) (snd (cv_font pdf)) x y s]\<rparr>"

definition draw_line :: "canvas \<Rightarrow> rat \<Rightarrow> rat \<Rightarrow> rat \<Rightarrow> rat \<Rightarrow> canvas" where
  "draw_line pdf x1 y1 x2 y2 = pdf\<lparr>cv_page := cv_page pdf @ [DrawLine x1 y1 x2 y2]\<rparr>"

definition show_page :: "canvas \<Rightarrow> canvas" where
  "show_page pdf = pdf\<lparr>cv_pages := cv_pages pdf @ [cv_page pdf], cv_page := []\<rparr>"

text \<open>
  A text object (\<^verbatim>\<open>pdf.beginText(x, y)\<close>): the cursor, the font, the leading and the
  lines written so far. \<^verbatim>\<open>setFont(name, size)\<close> sets the leading to 1.2 times the size;
  \<^verbatim>\<open>textLine(s)\<close> writes \<open>s\<close> at the cursor and moves the cursor down by the leading;
  \<^verbatim>\<open>getY()\<close> is the cursor's height; \<^verbatim>\<open>pdf.drawText(text)\<close> puts the lines on the
  current page.
\<close>

record text_object =
  to_x :: rat
  to_y :: rat
  to_font :: "pystr \<times> rat"
  to_leading :: rat
  to_lines :: "draw_op list"

definition begin_text :: "rat \<Rightarrow> rat \<Rightarrow> pystr \<Rightarrow> rat \<Rightarrow> text_object" where
  "begin_text x y name pt =
     \<lparr>to_x = x, to_y = y, to_font = (name, pt), to_leading = pt * (6 / 5), to_lines = []\<rparr>"

definition text_line :: "text_object \<Rightarrow> pystr \<Rightarrow> text_object" where
  "text_line t s =
     t\<lparr>to_lines := to_lines t @ [DrawTextLine (fst (to_font t)) (snd (to_font t)) (to_x t) (to_y t) s],
       to_y := to_y t - to_leading t\<rparr>"

definition draw_text :: "canvas \<Rightarrow> text_object \<Rightarrow> canvas" where
  "draw_text pdf t = pdf\<lparr>cv_page := cv_page pdf @ to_lines t\<rparr>"

text \<open>
  \<^verbatim>\<open>
      def draw_header():
          pdf.setFont("Helvetica-Bold", 22)
          pdf.drawString(40, height - 60, "ViajeIA")
          pdf.setFont("Helvetica", 12)
          pdf.drawString(40, height - 80, "Alex, tu consultor personal de viajes")
          pdf.line(40, height - 90, width - 40, height - 90)
  \<close>
\<close>

definition draw_header :: "canvas \<Rightarrow> canvas" where
  "draw_header pdf =
     (let pdf1 = draw_string (set_font pdf (py ''Helvetica-Bold'') 22) 40 (page_height - 60)
                   (py ''ViajeIA'');
          pdf2 = draw_string (set_font pdf1 (py ''Helvetica'') 12) 40 (page_height - 80)
                   (py ''Alex, tu consultor personal de viajes'')
      in draw_line pdf2 40 (page_height - 90) (page_width - 40) (page_height - 90))"

definition summary_title :: pystr where
  "summary_title = py ''Resumen de la conversaci'' @ [243] @ py ''n''"

text \<open>
  The text flow, lines 482 to 497; the code point 8226 is the bullet:
  \<^verbatim>\<open>
      for entry in history:
          text.textLine(f"(bullet) Pregunta: {entry.pregunta}")
          if entry.respuesta:
              for line in wrap_text(entry.respuesta):
                  text.textLine(f"  {line}")
          text.textLine("")
          if text.getY() < 80:
              pdf.drawText(text)
              pdf.showPage()
              draw_header()
              y = height - 120
              pdf.setFont("Helvetica-Bold", 13)
              pdf.drawString(40, y, "Resumen de la conversaci(o)n (cont.)")
              y -= 16
              text = pdf.beginText(40, y)
              text.setFont("Helvetica", 11)
  \<close>
\<close>

definition entry_lines :: "history_entry \<Rightarrow> pystr list" where
  "entry_lines entry =
     [[8226] @ py '' Pregunta: '' @ he_pregunta entry] @
     (if present (he_respuesta entry)
      then map (\<lambda>line. py ''  '' @ line)
             (wrap_text (case he_respuesta entry of None \<Rightarrow> [] | Some r \<Rightarrow> r) 90)
      else []) @
     [[]]"

fun flow_entries :: "history_entry list \<Rightarrow> canvas \<times> text_object \<Rightarrow> canvas \<times> text_object" where
  "flow_entries [] state = state"
| "flow_entries (entry # rest) (pdf, t) =
     (let t1 = foldl text_line t (entry_lines entry)
      in if to_y t1 < 80
         then
           (let pdf1 = draw_header (show_page (draw_text pdf t1));
                y = page_height - 120;
                pdf2 = draw_string (set_font pdf1 (py ''Helvetica-Bold'') 13) 40 y
                         (summary_title @ py '' (cont.)'')
            in flow_entries rest (pdf2, begin_text 40 (y - 16) (py ''Helvetica'') 11))
         else flow_entries rest (pdf, t1))"

text \<open>
  The gallery page, lines 500 to 513:
  \<^verbatim>\<open>
      if photos:
          pdf.showPage()
          draw_header()
          pdf.setFont("Helvetica-Bold", 13)
          pdf.drawString(40, height - 120, "Inspiraci(o)n visual")
          x_positions = [40, width / 2 - 90, width - 220]
          y_photo = height - 320
          for idx, url in enumerate(photos[:3]):
              try:
                  image_data = requests.get(url, timeout=8).content
                  img = ImageReader(io.BytesIO(image_data))
                  pdf.drawImage(img, x_positions[idx], y_photo, width=180, height=160, ...)
              except Exception:
                  continue
  \<close>
  \<open>image_get\<close> tells whether an image is downloaded, decoded and drawn.
\<close>

definition gallery_images :: "world \<Rightarrow> json list \<Rightarrow> draw_op list" where
  "gallery_images w photos =
     concat (map (\<lambda>(x, u). if image_get w u then [DrawImage u x (page_height - 320) 180 160] else [])
               (zip [40, page_width / 2 - 90, page_width - 220] (take 3 photos)))"

definition gallery :: "world \<Rightarrow> json list \<Rightarrow> canvas \<Rightarrow> canvas" where
  "gallery w photos pdf =
     (if photos \<noteq> []
      then
        (let pdf1 = draw_header (show_page pdf);
             pdf2 = draw_string (set_font pdf1 (py ''Helvetica-Bold'') 13) 40 (page_height - 120)
                      (py ''Inspiraci'' @ [243] @ py ''n visual'')
         in pdf2\<lparr>cv_page := cv_page pdf2 @ gallery_images w photos\<rparr>)
      else pdf)"

text \<open>
  \<^verbatim>\<open>
  @app.get("/itinerary/pdf")
  async def download_itinerary(session_id: str):
      history = conversation_store.get(session_id)
      if not history:
          raise HTTPException(status_code=404, detail="...")
      latest = history[-1]
      destino = latest.destino or extract_destino(latest.pregunta) or "Destino no especificado"
      fechas = extract_field(latest.pregunta, "Fechas aproximadas") or "Fechas no definidas"
      photos = get_destination_photos(destino)
      ...
      draw_header()
      y = height - 120
      pdf.setFont("Helvetica-Bold", 14)
      pdf.drawString(40, y, f"Destino: {destino}")
      y -= 20
      pdf.drawString(40, y, f"Fechas: {fechas}")
      y -= 30
      pdf.setFont("Helvetica-Bold", 13)
      pdf.drawString(40, y, "Resumen de la conversaci(o)n")
      y -= 16
      text = pdf.beginText(40, y)
      text.setFont("Helvetica", 11)
      ... (text flow) ...
      pdf.drawText(text)
      ... (gallery) ...
      pdf.showPage()
      pdf.save()
  \<close>
  The result is the list of pages of the saved document.
\<close>

definition or_else :: "pystr option \<Rightarrow> pystr \<Rightarrow> pystr" where
  "or_else v dflt = (case v of None \<Rightarrow> dflt | Some s \<Rightarrow> if s \<noteq> [] then s else dflt)"

definition first_page :: "pystr \<Rightarrow> pystr \<Rightarrow> canvas \<times> text_object" where
  "first_page destino fechas =
     (let pdf1 = draw_header new_canvas;
          y = page_height - 120;
          pdf2 = draw_string (set_font pdf1 (py ''Helvetica-Bold'') 14) 40 y
                   (py ''Destino: '' @ destino);
          pdf3 = draw_string pdf2 40 (y - 20) (py ''Fechas: '' @ fechas);
          pdf4 = draw_string (set_font pdf3 (py ''Helvetica-Bold'') 13) 40 (y - 20 - 30)
                   summary_title
      in (pdf4, begin_text 40 (y - 20 - 30 - 16) (py ''Helvetica'') 11))"

definition download_itinerary :: "world \<Rightarrow> store \<Rightarrow> pystr \<Rightarrow> py_error + draw_op list list" where
  "download_itinerary w st session_id =
     (case conversation_store st session_id of
        None \<Rightarrow> Inl (HTTPException 404)
      | Some history \<Rightarrow>
          if history = [] then Inl (HTTPException 404)
          else
            (let latest = last history in
             and_then (if present (he_destino latest) then Inr (he_destino latest)
                       else extract_destino (he_pregunta latest)) (\<lambda>found.
             and_then (extract_field (he_pregunta latest) (py ''Fechas aproximadas'')) (\<lambda>dates.
             (let destino = or_else found (py ''Destino no especificado'');
                  fechas = or_else dates (py ''Fechas no definidas'')
              in and_then (snd (get_destination_photos w (Some destino))) (\<lambda>photos.
                 (case flow_entries history (first_page destino fechas) of
                    (pdf, t) \<Rightarrow>
                      Inr (cv_pages (show_page (gallery w photos (draw_text pdf t)))))))))))"

text \<open>The three operations of the header block, and the pages that start with them.\<close>

definition header_ops :: "draw_op list" where
  "header_ops =
     [DrawString (py ''Helvetica-Bold'') 22 40 (page_height - 60) (py ''ViajeIA''),
      DrawString (py ''Helvetica'') 12 40 (page_height - 80)
        (py ''Alex, tu consultor personal de viajes''),
      DrawLine 40 (page_height - 90) (page_width - 40) (page_height - 90)]"

definition headed :: "canvas \<Rightarrow> bool" where
  "headed pdf \<longleftrightarrow> prefix header_ops (cv_page pdf) \<and> list_all (prefix header_ops) (cv_pages pdf)"

section \<open>Example environments\<close>

text \<open>
  Concrete worlds on which the theorems below are instantiated. On ASCII strings
  \<^verbatim>\<open>str.upper\<close> and \<^verbatim>\<open>str.capitalize\<close> are the two functions given here, and
  \<open>example_format\<close> holds the renderings of the numbers that occur in the examples.
\<close>

definition ascii_upper :: "pystr \<Rightarrow> pystr" where
  "ascii_upper s = map (\<lambda>c. if 97 \<le> c \<and> c \<le> 122 then c - 32 else c) s"

definition ascii_capitalize :: "pystr \<Rightarrow> pystr" where
  "ascii_capitalize s =
     (case s of
        [] \<Rightarrow> []
      | c # cs \<Rightarrow>
          (if 97 \<le> c \<and> c \<le> 122 then c - 32 else c) #
          map (\<lambda>d. if 65 \<le> d \<and> d \<le> 90 then d + 32 else d) cs)"

definition example_format :: "pystr \<Rightarrow> rat \<Rightarrow> pystr" where
  "example_format spec r =
     (if spec = py '',.2f'' \<and> r = 2171 / 2 then py ''1,085.50''
      else if spec = py ''.0f'' \<and> r = 43 / 2 then py ''22''
      else py ''0'')"

text \<open>No configuration, no network, no language model.\<close>

definition offline_world :: world where
  "offline_world =
     \<lparr>getenv = (\<lambda>name. None),
      http_get = (\<lambda>req. RequestFailed),
      image_get = (\<lambda>u. False),
      generate_content = (\<lambda>model p. GenerationFailed),
      utcnow_iso = py ''2024-06-01T12:00:00'',
      zone_offset = (\<lambda>name. if name = py ''UTC'' then Some 0 else None),
      clock_text = (\<lambda>secs. py ''12:00''),
      str_upper = ascii_upper,
      str_capitalize = ascii_capitalize,
      format_float = example_format,
      str_of = (\<lambda>v. [])\<rparr>"

text \<open>
  The given environment variables, a network that answers every request with status
  200 and the given payload, and a language model that answers with the given text.
\<close>

definition online_world :: "(pystr \<times> pystr) list \<Rightarrow> json \<Rightarrow> pystr \<Rightarrow> world" where
  "online_world env payload answer =
     offline_world
       \<lparr>getenv := map_of env,
        http_get := (\<lambda>req. Response 200 (Some payload)),
        generate_content := (\<lambda>model p. Generated (Some answer))\<rparr>"

definition example_entry :: "nat \<Rightarrow> history_entry" where
  "example_entry n =
     \<lparr>he_pregunta = [48 + n], he_respuesta = Some (py ''ok''), he_destino = None,
      he_timestamp = py ''2024-06-01T12:00:00Z''\<rparr>"

text \<open>
  The scenario of the specification: no provider credential is configured, and session
  \<open>s1\<close> asks about Paris; then it asks a follow-up question that names no destination.
\<close>

definition scenario_world :: world where
  "scenario_world = online_world [(py ''GEMINI_API_KEY'', py ''key'')] JNull (py ''  Buen viaje  '')"

definition scenario_request :: plan_request where
  "scenario_request =
     \<lparr>rq_pregunta = py ''Quiero viajar a Destino deseado: Paris | Fechas aproximadas: en junio'',
      rq_session_id = Some (py ''s1'')\<rparr>"

definition scenario_entry :: history_entry where
  "scenario_entry =
     \<lparr>he_pregunta = py ''Quiero viajar a Destino deseado: Paris | Fechas aproximadas: en junio'',
      he_respuesta = Some (py ''Buen viaje''), he_destino = Some (py ''Paris''),
      he_timestamp = py ''2024-06-01T12:00:00Z''\<rparr>"

definition no_panel :: panel_info where
  "no_panel = \<lparr>pi_currency = None, pi_time = None, pi_weather = None\<rparr>"

definition scenario_response :: plan_response where
  "scenario_response =
     \<lparr>rs_respuesta = py ''Buen viaje'', rs_fotos = [], rs_panel = no_panel,
      rs_history = [scenario_entry], rs_favorites = []\<rparr>"

definition scenario_store :: store where
  "scenario_store = append_entry empty_store (py ''s1'') scenario_entry"




text \<open>A photo search result with the given URL, and a world whose provider sends such results.\<close>

definition photo_item :: "pystr \<Rightarrow> json" where
  "photo_item u = JObj [(py ''urls'', JObj [(py ''regular'', JStr u)])]"

definition photos_world :: "pystr list \<Rightarrow> world" where
  "photos_world us =
     online_world [(py ''UNSPLASH_ACCESS_KEY'', py ''k'')]
       (JObj [(py ''results'', JArr (map photo_item us))]) []"

text \<open>
  A stored conversation whose only answer wraps into 41 lines: 41 words of 46 letters.
\<close>

definition long_word :: pystr where
  "long_word = replicate 46 97"

definition long_answer :: pystr where
  "long_answer = join [32] (replicate 41 long_word)"

definition long_entry :: history_entry where
  "long_entry =
     \<lparr>he_pregunta = py ''Plan'', he_respuesta = Some long_answer, he_destino = Some (py ''Paris''),
      he_timestamp = py ''2024-06-01T12:00:00Z''\<rparr>"

definition long_store :: store where
  "long_store = append_entry empty_store (py ''s1'') long_entry"

section \<open>Properties of the field extractor\<close>

lemma py_colon: "py '':'' = [58]"
  by (simp add: py_def)

lemma py_bar: "py ''|'' = [124]"
  by (simp add: py_def)

lemma py_dot: "py ''.'' = [46]"
  by (simp add: py_def)

lemma str_partition_None: "str_partition text sep = None \<longleftrightarrow> \<not> sublist sep text"
proof (induction "text")
  case Nil
  then show ?case by simp
next
  case (Cons c cs)
  show ?case
  proof (cases "prefix sep (c # cs)")
    case True
    then show ?thesis by (auto dest: prefix_imp_sublist)
  next
    case False
    then show ?thesis using Cons by (simp add: sublist_Cons_right)
  qed
qed

lemma sublist_early:
  assumes "prefix sep (pre @ sep @ post)" and "pre \<noteq> []"
  shows "sublist sep (pre @ butlast sep)"
proof -
  from assms(1) obtain zs where zs: "pre @ sep @ post = sep @ zs"
    by (auto simp: prefix_def)
  have len: "length sep \<le> length (pre @ butlast sep)"
    using assms(2) by (cases pre) auto
  have "sep = take (length sep) (pre @ sep @ post)"
    using zs by simp
  also have "pre @ sep @ post = (pre @ butlast sep) @ (drop (length sep - 1) sep @ post)"
    by (cases sep rule: rev_cases) (auto simp: butlast_append)
  also have "take (length sep) \<dots> = take (length sep) (pre @ butlast sep)"
    using len by simp
  finally have "prefix sep (pre @ butlast sep)"
    by (metis take_is_prefix)
  then show ?thesis by (rule prefix_imp_sublist)
qed

lemma str_partition_first:
  assumes "sep \<noteq> []" and "\<not> sublist sep (pre @ butlast sep)"
  shows "str_partition (pre @ sep @ post) sep = Some (pre, post)"
  using assms(2)
proof (induction pre)
  case Nil
  obtain s ss where sep: "sep = s # ss" using assms(1) by (cases sep) auto
  then show ?case by simp
next
  case (Cons p ps)
  have np: "\<not> prefix sep ((p # ps) @ sep @ post)"
    using sublist_early [of sep "p # ps" post] Cons.prems by auto
  have "\<not> sublist sep (ps @ butlast sep)"
    using Cons.prems by (auto simp: sublist_Cons_right)
  then have "str_partition (ps @ sep @ post) sep = Some (ps, post)"
    by (rule Cons.IH)
  with np show ?case by simp
qed

lemma first_piece:
  assumes "124 \<notin> set seg" and "rest = [] \<or> hd rest = 124"
  shows "and_then (str_split1 (seg @ rest) [124]) (\<lambda>pieces. list_index pieces 0) = Inr seg"
proof (cases rest)
  case Nil
  have "\<not> sublist [124] seg"
    using assms(1) by (auto simp: sublist_def)
  then have "str_partition seg [124] = None"
    by (simp add: str_partition_None)
  with Nil show ?thesis
    by (simp add: str_split1_def and_then_def list_index_def)
next
  case (Cons r rs)
  with assms(2) have r: "r = 124" by simp
  have "\<not> sublist [124] (seg @ butlast [124])"
    using assms(1) by (auto simp: sublist_def)
  then have "str_partition (seg @ [124] @ rs) [124] = Some (seg, rs)"
    by (intro str_partition_first) simp_all
  with Cons r show ?thesis
    by (simp add: str_split1_def and_then_def list_index_def)
qed

lemma extract_field_absent:
  assumes "\<not> sublist (label @ [58]) text"
  shows "extract_field text label = Inr None"
  using assms by (simp add: extract_field_def str_contains_def str_partition_None py_colon)

lemma extract_field_present:
  assumes "str_partition text (label @ [58]) = Some (pre, after)"
  shows "extract_field text label =
    and_then (and_then (str_split1 after [124]) (\<lambda>pieces. list_index pieces 0)) (\<lambda>piece.
      Inr (if strip_chars [46] (strip piece) = [] then None
           else Some (strip_chars [46] (strip piece))))"
  using assms
  by (simp add: extract_field_def str_contains_def str_split1_def list_index_def
      and_then_def py_colon py_bar py_dot Let_def split: sum.splits option.splits)

lemma str_split1_bar_total: "\<exists>a bs. str_split1 s [124] = Inr (a # bs)"
  by (simp add: str_split1_def split: option.splits)

lemma extract_field_total: "\<exists>r. extract_field text label = Inr r"
proof (cases "str_partition text (label @ [58])")
  case None
  then show ?thesis
    by (simp add: extract_field_def str_contains_def py_colon)
next
  case (Some ab)
  obtain pre after where "ab = (pre, after)" by (cases ab)
  with Some have p: "str_partition text (label @ [58]) = Some (pre, after)" by simp
  obtain a bs where "str_split1 after [124] = Inr (a # bs)"
    using str_split1_bar_total by blast
  then show ?thesis
    by (simp add: extract_field_present [OF p] and_then_def list_index_def)
qed

text \<open>
  C1, as amended. For every text and label the extractor returns a value and never
  raises. It returns none when \<open>label:\<close> does not occur in the text. When the first
  occurrence of \<open>label:\<close> is followed by a segment that runs to the next \<open>|\<close> or to
  the end of the text, the result is that segment with whitespace removed at both ends
  and then periods removed at both ends (leading periods as well as trailing ones, and
  nothing more after that), or none when nothing is left.
\<close>

theorem extract_field_contract:
  "(\<exists>r. extract_field text label = Inr r) \<and>
   (\<not> sublist (label @ py '':'') text \<longrightarrow> extract_field text label = Inr None) \<and>
   (\<forall>pre seg rest.
      text = pre @ (label @ py '':'') @ seg @ rest \<and>
      \<not> sublist (label @ py '':'') (pre @ butlast (label @ py '':'')) \<and>
      124 \<notin> set seg \<and> (rest = [] \<or> hd rest = 124) \<longrightarrow>
      extract_field text label =
        Inr (if strip_chars (py ''.'') (strip seg) = [] then None
             else Some (strip_chars (py ''.'') (strip seg))))"
proof (intro conjI allI impI)
  show "\<exists>r. extract_field text label = Inr r"
    by (rule extract_field_total)
next
  assume "\<not> sublist (label @ py '':'') text"
  then show "extract_field text label = Inr None"
    by (simp add: extract_field_absent py_colon)
next
  fix pre seg rest
  assume a: "text = pre @ (label @ py '':'') @ seg @ rest \<and>
      \<not> sublist (label @ py '':'') (pre @ butlast (label @ py '':'')) \<and>
      124 \<notin> set seg \<and> (rest = [] \<or> hd rest = 124)"
  then have "str_partition (pre @ (label @ [58]) @ (seg @ rest)) (label @ [58]) = Some (pre, seg @ rest)"
    by (intro str_partition_first) (simp_all add: py_colon)
  with a have p: "str_partition text (label @ [58]) = Some (pre, seg @ rest)"
    by (simp add: py_colon)
  from a have "and_then (str_split1 (seg @ rest) [124]) (\<lambda>pieces. list_index pieces 0) = Inr seg"
    by (intro first_piece) simp_all
  then show "extract_field text label =
        Inr (if strip_chars (py ''.'') (strip seg) = [] then None
             else Some (strip_chars (py ''.'') (strip seg)))"
    by (simp add: extract_field_present [OF p] and_then_def py_dot)
qed

text \<open>An instance of C1, with a segment that ends in a period and a space.\<close>

theorem extract_field_contract_witness:
  "extract_field (py ''Quiero ir a Destino deseado: Paris. | Fechas aproximadas: en junio'')
     (py ''Destino deseado'') = Inr (Some (py ''Paris''))"
proof -
  let ?pre = "py ''Quiero ir a ''"
  let ?label = "py ''Destino deseado''"
  let ?seg = "py '' Paris. ''"
  let ?rest = "py ''| Fechas aproximadas: en junio''"
  have first: "\<not> sublist (?label @ py '':'') (?pre @ butlast (?label @ py '':''))"
    by (simp add: str_partition_None [symmetric] py_def)
  have seg: "124 \<notin> set ?seg" by (simp add: py_def)
  have rest: "?rest = [] \<or> hd ?rest = 124" by (simp add: py_def)
  have trimmed: "strip_chars (py ''.'') (strip ?seg) = py ''Paris''"
    by (simp add: py_def strip_def strip_chars_def isspace_def)
  have ne: "py ''Paris'' \<noteq> []" by (simp add: py_def)
  have "extract_field (?pre @ (?label @ py '':'') @ ?seg @ ?rest) ?label =
          Inr (if strip_chars (py ''.'') (strip ?seg) = [] then None
               else Some (strip_chars (py ''.'') (strip ?seg)))"
    using extract_field_contract [of "?pre @ (?label @ py '':'') @ ?seg @ ?rest" ?label]
      first seg rest by blast
  then show ?thesis
    unfolding trimmed using ne by (simp add: py_def)
qed

text \<open>
  C1 as stated fails where the segment starts with a period: the code removes leading
  periods too, while the contract as worded removes trailing ones only.
\<close>

theorem extract_field_counterexample:
  "extract_field (py ''Destino deseado: .NET'') (py ''Destino deseado'') = Inr (Some (py ''NET'')) \<and>
   extract_field_spec (py ''Destino deseado: .NET'') (py ''Destino deseado'') = Some (py ''.NET'')"
  by (simp add: extract_field_def extract_field_spec_def py_def str_contains_def str_split1_def
      list_index_def and_then_def strip_def strip_chars_def rstrip_chars_def isspace_def)

section \<open>Properties of the line wrapping\<close>

lemma isspace_32: "isspace 32"
  by (simp add: isspace_def)

lemma split_words_nonspace:
  "list_all (\<lambda>c. \<not> isspace c) w \<Longrightarrow> split_words cur (w @ rest) = split_words (cur @ w) rest"
  by (induction w arbitrary: cur) auto



lemma split_words_join:
  "list_all is_word (v # vs) \<Longrightarrow> list_all (\<lambda>c. \<not> isspace c) cur \<Longrightarrow>
   split_words cur (join [32] (v # vs)) = (cur @ v) # vs"
proof (induction vs arbitrary: cur v)
  case Nil
  then show ?case
    using split_words_nonspace [of v cur "[]"] by (simp add: is_word_def)
next
  case (Cons t ts)
  have "split_words cur (v @ [32] @ join [32] (t # ts)) = split_words (cur @ v) ([32] @ join [32] (t # ts))"
    using Cons.prems by (intro split_words_nonspace) (simp add: is_word_def)
  also have "\<dots> = (cur @ v) # split_words [] (join [32] (t # ts))"
    using Cons.prems by (simp add: isspace_32 is_word_def)
  also have "split_words [] (join [32] (t # ts)) = ([] @ t) # ts"
    using Cons.prems by (intro Cons.IH) simp_all
  finally show ?case by simp
qed

lemma str_split_join: "list_all is_word ws \<Longrightarrow> str_split (join [32] ws) = ws"
  using split_words_join [of _ _ "[]"] by (cases ws) (simp_all add: str_split_def)











text \<open>An instance of C7: two words of 46 letters do not fit on one line.\<close>

lemma long_word_is_word: "is_word long_word"
  by (simp add: is_word_def long_word_def isspace_def list_all_iff)

lemma length_long_word: "length long_word = 46"
  by (simp add: long_word_def)


section \<open>Properties of the conversation store\<close>

lemma length_last_n: "length (last_n n xs) \<le> n"
  by (simp add: last_n_def)

lemma last_n_last_n_append: "last_n n (last_n n xs @ ys) = last_n n (xs @ ys)"
proof (cases "length xs \<le> n")
  case True
  then show ?thesis by (simp add: last_n_def)
next
  case False
  define k where "k = length xs - n"
  have k: "length xs = k + n" using False by (simp add: k_def)
  have "last_n n (last_n n xs @ ys) = drop (length ys) (drop k xs @ ys)"
    by (simp add: last_n_def k)
  also have "drop k xs @ ys = drop k (xs @ ys)"
    by (simp add: k)
  also have "drop (length ys) (drop k (xs @ ys)) = drop (length ys + k) (xs @ ys)"
    by (simp only: drop_drop)
  also have "\<dots> = last_n n (xs @ ys)"
    by (simp add: last_n_def k add.commute)
  finally show ?thesis .
qed

lemma history_of_empty: "history_of empty_store session_id = []"
  by (simp add: history_of_def empty_store_def)

lemma history_of_append_entry:
  "history_of (append_entry st s entry) s' =
     (if s' = s then last_n 10 (history_of st s @ [entry]) else history_of st s')"
  by (simp add: append_entry_def history_of_def Let_def)

lemma and_then_Inr:
  "and_then r f = Inr v \<longleftrightarrow> (\<exists>x. r = Inr x \<and> f x = Inr v)"
  by (cases r) (simp_all add: and_then_def)

lemma plan_with_destino_store:
  assumes "plan_with_destino w st payload s model destino = Inr (response, st')"
  shows "\<exists>respuesta. respuesta \<noteq> [] \<and>
     st' = append_entry st s
       \<lparr>he_pregunta = rq_pregunta payload, he_respuesta = Some respuesta,
        he_destino = destino, he_timestamp = utcnow_iso w @ py ''Z''\<rparr> \<and>
     rs_respuesta response = respuesta \<and>
     rs_history response = history_of st' s"
proof -
  from assms obtain respuesta weather_bits where
    ask: "ask_model w model
      \<lparr>pr_context = rq_pregunta payload,
       pr_history = map (\<lambda>e. (he_pregunta e, he_respuesta e)) (last_n 5 (history_of st s)),
       pr_weather = weather_bits\<rparr> = Inr respuesta"
    and st': "st' = append_entry st s
       \<lparr>he_pregunta = rq_pregunta payload, he_respuesta = Some respuesta,
        he_destino = destino, he_timestamp = utcnow_iso w @ py ''Z''\<rparr>"
    and r: "rs_respuesta response = respuesta"
    and h: "rs_history response = history_of st' s"
    by (auto simp: plan_with_destino_def and_then_Inr Let_def)
  have "respuesta \<noteq> []"
    using ask by (auto simp: ask_model_def fallback_respuesta_def py_def Let_def
        split: generation.splits if_splits)
  with st' r h show ?thesis by blast
qed

lemma plan_trip_store:
  assumes "plan_trip w st payload = Inr (response, st')"
  shows "\<exists>entry. st' = append_entry st (session_of payload) entry \<and>
     rs_history response = history_of st' (session_of payload)"
  using assms plan_with_destino_store
  by (fastforce simp: plan_trip_def and_then_Inr Let_def)

lemma bounded_append_entry: "bounded st \<Longrightarrow> bounded (append_entry st s entry)"
  by (simp add: bounded_def history_of_append_entry length_last_n)

lemma bounded_serve: "bounded st \<Longrightarrow> bounded (serve st requests)"
proof (induction requests arbitrary: st)
  case Nil
  then show ?case by simp
next
  case (Cons request requests)
  obtain w payload where request: "request = (w, payload)" by (cases request)
  show ?case
  proof (cases "plan_trip w st payload")
    case (Inl e)
    with request Cons show ?thesis by simp
  next
    case (Inr result)
    obtain response st' where result: "result = (response, st')" by (cases result)
    with Inr plan_trip_store obtain entry where "st' = append_entry st (session_of payload) entry"
      by blast
    with Cons.prems have "bounded st'" by (simp add: bounded_append_entry)
    then have "bounded (serve st' requests)" by (rule Cons.IH)
    with request Inr result show ?thesis by simp
  qed
qed

lemma history_after_appends:
  "history_of (foldl (\<lambda>st e. append_entry st s e) st entries) s =
     (if entries = [] then history_of st s else last_n 10 (history_of st s @ entries))"
proof (induction entries arbitrary: st)
  case Nil
  show ?case by simp
next
  case (Cons e es)
  show ?case
  proof (cases es)
    case Nil
    then show ?thesis by (simp add: history_of_append_entry)
  next
    case (Cons e' es')
    have "last_n 10 (last_n 10 (history_of st s @ [e]) @ es) = last_n 10 ((history_of st s @ [e]) @ es)"
      by (rule last_n_last_n_append)
    then show ?thesis
      using Cons Cons.IH [of "append_entry st s e"]
      by (simp add: history_of_append_entry)
  qed
qed


lemma py_nonempty: "py (c # cs) \<noteq> []"
  by (simp add: py_def)

lemma py_inject: "py a = py b \<longleftrightarrow> a = b"
  by (simp add: py_def inj_map_eq_map inj_on_def)

lemma scenario_env:
  "getenv scenario_world (py ''GEMINI_API_KEY'') = Some (py ''key'')"
  "getenv scenario_world (py ''GOOGLE_API_KEY'') = None"
  "getenv scenario_world (py ''GEMINI_MODEL'') = None"
  "getenv scenario_world (py ''OPENWEATHER_API_KEY'') = None"
  "getenv scenario_world (py ''UNSPLASH_ACCESS_KEY'') = None"
  by (simp_all add: scenario_world_def online_world_def offline_world_def py_def)

lemma scenario_model: "get_gemini_model scenario_world = Inr (py ''gemini-1.5-flash'')"
  by (simp add: get_gemini_model_def scenario_env py_nonempty)

lemma scenario_destino:
  "extract_destino (py ''Quiero viajar a Destino deseado: Paris | Fechas aproximadas: en junio'') =
     Inr (Some (py ''Paris''))"
  by (simp add: extract_destino_def extract_field_def py_def str_contains_def str_split1_def
      list_index_def and_then_def strip_def strip_chars_def isspace_def)

lemma scenario_answer:
  "ask_model scenario_world model p = Inr (py ''Buen viaje'')"
  by (simp add: ask_model_def scenario_world_def online_world_def offline_world_def
      strip_def py_def isspace_def fallback_respuesta_def)

lemma scenario_rest:
  "plan_with_destino scenario_world st payload s model destino =
     Inr (\<lparr>rs_respuesta = py ''Buen viaje'', rs_fotos = [], rs_panel = no_panel,
            rs_history = history_of (append_entry st s
              \<lparr>he_pregunta = rq_pregunta payload, he_respuesta = Some (py ''Buen viaje''),
               he_destino = destino, he_timestamp = py ''2024-06-01T12:00:00Z''\<rparr>) s,
            rs_favorites = (case favorites_store st s of None \<Rightarrow> [] | Some f \<Rightarrow> f)\<rparr>,
          append_entry st s
              \<lparr>he_pregunta = rq_pregunta payload, he_respuesta = Some (py ''Buen viaje''),
               he_destino = destino, he_timestamp = py ''2024-06-01T12:00:00Z''\<rparr>)"
proof -
  have weather: "get_weather_data scenario_world destino = ([], Inr None)"
    by (simp add: get_weather_data_def scenario_env)
  have photos: "get_destination_photos scenario_world destino = ([], Inr [])"
    by (simp add: get_destination_photos_def scenario_env)
  have currency: "get_currency_code scenario_world JNull = ([], Inr None)"
    by (simp add: get_currency_code_def)
  have rate: "get_exchange_rate scenario_world None = ([], Inr None)"
    by (simp add: get_exchange_rate_def)
  have zone: "get_time_difference_info scenario_world JNull = Inr None"
    by (simp add: get_time_difference_info_def)
  have shown: "format_weather_section scenario_world None = Inr None"
    by (simp add: format_weather_section_def)
  have bits: "prompt_weather scenario_world None destino = Inr None"
    by (simp add: prompt_weather_def)
  have now: "utcnow_iso scenario_world @ py ''Z'' = py ''2024-06-01T12:00:00Z''"
    by (simp add: scenario_world_def online_world_def offline_world_def py_def)
  show ?thesis
    by (simp add: plan_with_destino_def weather photos currency rate zone shown bits
        scenario_answer now and_then_def no_panel_def Let_def)
qed

lemma scenario_plan_trip:
  "plan_trip scenario_world empty_store scenario_request = Inr (scenario_response, scenario_store)"
proof -
  have s: "session_of scenario_request = py ''s1''"
    by (simp add: session_of_def scenario_request_def py_nonempty)
  have d: "plan_destino (rq_pregunta scenario_request) [] = Inr (Some (py ''Paris''))"
    by (simp add: plan_destino_def scenario_request_def scenario_destino and_then_def)
  have e: "\<lparr>he_pregunta = rq_pregunta scenario_request, he_respuesta = Some (py ''Buen viaje''),
            he_destino = Some (py ''Paris''), he_timestamp = py ''2024-06-01T12:00:00Z''\<rparr> = scenario_entry"
    by (simp add: scenario_entry_def scenario_request_def)
  have f: "favorites_store empty_store (py ''s1'') = None"
    by (simp add: empty_store_def)
  have h: "history_of scenario_store (py ''s1'') = [scenario_entry]"
    by (simp add: scenario_store_def history_of_append_entry history_of_empty last_n_def)
  show ?thesis
    by (simp add: plan_trip_def s d scenario_model history_of_empty and_then_def scenario_rest e f
        scenario_response_def scenario_store_def [symmetric] h Let_def)
qed


text \<open>
  C2. Whatever requests the chat handler has served since the process started, no
  session's history has more than 10 entries; the handler changes the store only by
  appending one entry to the session's history and keeping the last 10. After any
  number of appends to one session the history is the last 10 appended entries in
  their order, so after 15 appends it is the 6th to the 15th.
\<close>

theorem history_bounded:
  "length (history_of (serve empty_store requests) s) \<le> 10 \<and>
   (plan_trip w st payload = Inr (response, st') \<longrightarrow>
      (\<exists>entry. st' = append_entry st (session_of payload) entry \<and>
         rs_history response = history_of st' (session_of payload))) \<and>
   history_of (foldl (\<lambda>st e. append_entry st s e) empty_store entries) s = last_n 10 entries \<and>
   (length entries = 15 \<longrightarrow>
      history_of (foldl (\<lambda>st e. append_entry st s e) empty_store entries) s = drop 5 entries)"
proof -
  have "bounded empty_store"
    by (simp add: bounded_def history_of_empty)
  then have "bounded (serve empty_store requests)"
    by (rule bounded_serve)
  then have a: "length (history_of (serve empty_store requests) s) \<le> 10"
    by (simp add: bounded_def)
  have c: "history_of (foldl (\<lambda>st e. append_entry st s e) empty_store entries) s = last_n 10 entries"
    by (simp add: history_after_appends history_of_empty last_n_def)
  have d: "last_n 10 entries = drop 5 entries" if "length entries = 15"
    using that by (simp add: last_n_def)
  show ?thesis
    using a c d plan_trip_store [of w st payload response st'] by auto
qed

text \<open>
  An instance of C2: the first request of the scenario, and 15 appends to session
  \<open>s1\<close>, which leave the entries 5 to 14 (counted from 0).
\<close>

theorem history_bounded_witness:
  "plan_trip scenario_world empty_store scenario_request = Inr (scenario_response, scenario_store) \<and>
   rs_history scenario_response = history_of scenario_store (py ''s1'') \<and>
   length (history_of (serve empty_store [(scenario_world, scenario_request)]) (py ''s1'')) \<le> 10 \<and>
   length (map example_entry [0..<15]) = 15 \<and>
   history_of (foldl (\<lambda>st e. append_entry st (py ''s1'') e) empty_store (map example_entry [0..<15]))
     (py ''s1'') = map example_entry [5..<15]"
proof -
  have s: "session_of scenario_request = py ''s1''"
    by (simp add: session_of_def scenario_request_def py_nonempty)
  have n: "length (map example_entry [0..<15]) = 15" by simp
  have "drop 5 (map example_entry [0..<15]) = map example_entry [5..<15]"
    by (simp add: drop_map)
  then show ?thesis
    using history_bounded [of "[(scenario_world, scenario_request)]" "py ''s1''" scenario_world
        empty_store scenario_request scenario_response scenario_store "map example_entry [0..<15]"]
      scenario_plan_trip s n
    by auto
qed

section \<open>Properties of the chat handler\<close>

lemma last_n_snoc: "0 < n \<Longrightarrow> last_n n (xs @ [x]) \<noteq> [] \<and> last (last_n n (xs @ [x])) = x"
  by (simp add: last_n_def)


lemma plan_with_destino_Inr:
  assumes "plan_with_destino w st payload s model destino = Inr (response, st')"
  obtains weather_data fotos currency_code currency_section time_section weather_section
    weather_bits respuesta
  where "snd (get_weather_data w destino) = Inr weather_data"
    and "snd (get_destination_photos w destino) = Inr fotos"
    and "snd (get_currency_code w (case weather_data of None \<Rightarrow> JNull | Some wd \<Rightarrow> wd_country wd)) =
          Inr currency_code"
    and "snd (get_exchange_rate w currency_code) = Inr currency_section"
    and "get_time_difference_info w
          (case weather_data of None \<Rightarrow> JNull | Some wd \<Rightarrow> wd_timezone_offset wd) = Inr time_section"
    and "format_weather_section w weather_data = Inr weather_section"
    and "ask_model w model
          \<lparr>pr_context = rq_pregunta payload,
           pr_history = map (\<lambda>e. (he_pregunta e, he_respuesta e)) (last_n 5 (history_of st s)),
           pr_weather = weather_bits\<rparr> = Inr respuesta"
    and "rs_respuesta response = respuesta"
    and "rs_fotos response = fotos"
    and "rs_panel response =
          \<lparr>pi_currency = currency_section, pi_time = time_section, pi_weather = weather_section\<rparr>"
    and "rs_history response = history_of st' s"
    and "st' = append_entry st s
          \<lparr>he_pregunta = rq_pregunta payload, he_respuesta = Some respuesta,
           he_destino = destino, he_timestamp = utcnow_iso w @ py ''Z''\<rparr>"
  using assms by (auto simp: plan_with_destino_def and_then_Inr Let_def)

lemma plan_with_destino_last:
  assumes "plan_with_destino w st payload s model destino = Inr (response, st')"
  shows "rs_history response \<noteq> [] \<and>
     he_destino (last (rs_history response)) = destino \<and>
     he_respuesta (last (rs_history response)) = Some (rs_respuesta response)"
proof -
  from assms obtain respuesta where
    r: "rs_respuesta response = respuesta"
    and h: "rs_history response = history_of st' s"
    and st': "st' = append_entry st s
          \<lparr>he_pregunta = rq_pregunta payload, he_respuesta = Some respuesta,
           he_destino = destino, he_timestamp = utcnow_iso w @ py ''Z''\<rparr>"
    by (rule plan_with_destino_Inr)
  show ?thesis
    unfolding h st' r history_of_append_entry by (simp add: last_n_snoc)
qed

lemma plan_trip_Inr:
  assumes "plan_trip w st payload = Inr (response, st')"
  obtains model destino where "get_gemini_model w = Inr model"
    and "plan_destino (rq_pregunta payload) (history_of st (session_of payload)) = Inr destino"
    and "plan_with_destino w st payload (session_of payload) model destino = Inr (response, st')"
  using assms by (auto simp: plan_trip_def and_then_Inr Let_def)

lemma py_append: "py (a @ b) = py a @ py b"
  by (simp add: py_def)




lemma strip_all_space:
  assumes "list_all isspace t"
  shows "strip t = []"
proof -
  have empty: "dropWhile isspace t = []"
    using assms by (induction t) simp_all
  show ?thesis unfolding strip_def empty by simp
qed

lemma fallback_respuesta_nonempty: "fallback_respuesta \<noteq> []"
  by (simp add: fallback_respuesta_def py_def)

text \<open>
  C10. The \<^verbatim>\<open>respuesta\<close> of a successful \<^verbatim>\<open>/plan\<close> request is never empty, and the new
  (last) history entry stores the same text: it is the stripped text of the language
  model, or the fixed fallback message when that is empty. A text that is absent,
  empty or whitespace only gives the fallback message, not an empty answer or an error.
\<close>

theorem respuesta_nonempty:
  "(plan_trip w st payload = Inr (response, st') \<longrightarrow>
      rs_respuesta response \<noteq> [] \<and>
      rs_history response \<noteq> [] \<and>
      he_respuesta (last (rs_history response)) = Some (rs_respuesta response) \<and>
      (\<exists>model p answer. generate_content w model p = Generated answer \<and>
         rs_respuesta response =
           (if strip (case answer of None \<Rightarrow> [] | Some t \<Rightarrow> t) = [] then fallback_respuesta
            else strip (case answer of None \<Rightarrow> [] | Some t \<Rightarrow> t)))) \<and>
   (generate_content w model p = Generated answer \<and>
    list_all isspace (case answer of None \<Rightarrow> [] | Some t \<Rightarrow> t) \<longrightarrow>
      ask_model w model p = Inr fallback_respuesta)"
proof (intro conjI impI)
  assume "generate_content w model p = Generated answer \<and>
    list_all isspace (case answer of None \<Rightarrow> [] | Some t \<Rightarrow> t)"
  then show "ask_model w model p = Inr fallback_respuesta"
    by (simp add: ask_model_def strip_all_space)
next
  assume ok: "plan_trip w st payload = Inr (response, st')"
  then obtain m destino where
    run: "plan_with_destino w st payload (session_of payload) m destino = Inr (response, st')"
    by (rule plan_trip_Inr)
  from plan_with_destino_last [OF run]
  show "rs_history response \<noteq> []"
    and "he_respuesta (last (rs_history response)) = Some (rs_respuesta response)"
    by simp_all
  from run obtain q where ask: "ask_model w m q = Inr (rs_respuesta response)"
    by (rule plan_with_destino_Inr) simp
  then obtain a where gen: "generate_content w m q = Generated a"
    and r: "rs_respuesta response =
           (if strip (case a of None \<Rightarrow> [] | Some t \<Rightarrow> t) = [] then fallback_respuesta
            else strip (case a of None \<Rightarrow> [] | Some t \<Rightarrow> t))"
    by (auto simp: ask_model_def Let_def split: generation.splits)
  from r show "rs_respuesta response \<noteq> []"
    by (simp add: fallback_respuesta_nonempty split: if_splits)
  from gen r show "\<exists>model p answer. generate_content w model p = Generated answer \<and>
         rs_respuesta response =
           (if strip (case answer of None \<Rightarrow> [] | Some t \<Rightarrow> t) = [] then fallback_respuesta
            else strip (case answer of None \<Rightarrow> [] | Some t \<Rightarrow> t))"
    by blast
qed


text \<open>
  Instances of C10: the answer of the scenario, and a language model that answers with
  three spaces.
\<close>

theorem respuesta_nonempty_witness:
  "plan_trip scenario_world empty_store scenario_request = Inr (scenario_response, scenario_store) \<and>
   rs_respuesta scenario_response \<noteq> [] \<and>
   he_respuesta (last (rs_history scenario_response)) = Some (rs_respuesta scenario_response) \<and>
   generate_content (online_world [] JNull (py ''   '')) [] \<lparr>pr_context = [], pr_history = [], pr_weather = None\<rparr> =
     Generated (Some (py ''   '')) \<and>
   list_all isspace (py ''   '') \<and>
   ask_model (online_world [] JNull (py ''   '')) [] \<lparr>pr_context = [], pr_history = [], pr_weather = None\<rparr> =
     Inr fallback_respuesta"
proof -
  let ?w = "online_world [] JNull (py ''   '')"
  let ?p = "\<lparr>pr_context = [], pr_history = [], pr_weather = None\<rparr>"
  have g: "generate_content ?w [] ?p = Generated (Some (py ''   ''))"
    by (simp add: online_world_def offline_world_def)
  have b: "list_all isspace (py ''   '')"
    by (simp add: py_def isspace_def)
  show ?thesis
    using respuesta_nonempty [of scenario_world empty_store scenario_request scenario_response
        scenario_store]
      respuesta_nonempty [where w = ?w and model = "[]" and p = ?p and answer = "Some (py ''   '')"]
      scenario_plan_trip g b
    by simp
qed






section \<open>Properties of the provider adapters\<close>

lemma online_getenv: "getenv (online_world env payload answer) = map_of env"
  by (simp add: online_world_def)

lemma online_fetch: "fetch_json (online_world env payload answer) req = Some payload"
  by (simp add: fetch_json_def online_world_def)


lemma online_upper: "str_upper (online_world env payload answer) = ascii_upper"
  by (simp add: online_world_def offline_world_def)


text \<open>
  C3. The adapters are not total: a payload of an unexpected shape raises an exception
  that the \<^verbatim>\<open>except requests.RequestException\<close> clause does not catch. An empty
  \<open>weather\<close> list makes the weather adapter raise \<^verbatim>\<open>IndexError\<close>; a payload that is
  a list makes the photo adapter raise \<^verbatim>\<open>AttributeError\<close>; a payload that is an object
  makes the currency adapter raise \<^verbatim>\<open>KeyError\<close>; a rate that is a string makes the
  exchange-rate adapter raise \<^verbatim>\<open>ValueError\<close>.
\<close>

theorem adapters_raise:
  "get_weather_data
     (online_world [(py ''OPENWEATHER_API_KEY'', py ''k'')] (JObj [(py ''weather'', JArr [])]) [])
     (Some (py ''Paris'')) = ([weather_request (py ''k'') (py ''Paris'')], Inl IndexError) \<and>
   get_destination_photos
     (online_world [(py ''UNSPLASH_ACCESS_KEY'', py ''k'')] (JArr []) [])
     (Some (py ''Paris'')) = ([photos_request (py ''k'') (py ''Paris'')], Inl AttributeError) \<and>
   get_currency_code
     (online_world [] (JObj [(py ''currencies'', JObj [(py ''EUR'', JObj [])])]) [])
     (JStr (py ''FR'')) = ([currency_request (py ''FR'')], Inl KeyError) \<and>
   get_exchange_rate
     (online_world [] (JObj [(py ''rates'', JObj [(py ''EUR'', JStr (py ''0.92''))])]) [])
     (Some (py ''EUR'')) = ([rate_request (py ''USD'')], Inl ValueError)"
proof (intro conjI)
  show "get_weather_data
     (online_world [(py ''OPENWEATHER_API_KEY'', py ''k'')] (JObj [(py ''weather'', JArr [])]) [])
     (Some (py ''Paris'')) = ([weather_request (py ''k'') (py ''Paris'')], Inl IndexError)"
    by (simp add: get_weather_data_def online_getenv online_fetch py_nonempty weather_snapshot_def
        dict_get_def subscript0_def and_then_def)
  show "get_destination_photos
     (online_world [(py ''UNSPLASH_ACCESS_KEY'', py ''k'')] (JArr []) [])
     (Some (py ''Paris'')) = ([photos_request (py ''k'') (py ''Paris'')], Inl AttributeError)"
    by (simp add: get_destination_photos_def online_getenv online_fetch py_nonempty
        dict_get_def and_then_def)
  show "get_currency_code
     (online_world [] (JObj [(py ''currencies'', JObj [(py ''EUR'', JObj [])])]) [])
     (JStr (py ''FR'')) = ([currency_request (py ''FR'')], Inl KeyError)"
    by (simp add: get_currency_code_def online_fetch py_nonempty fstring_def subscript0_def
        and_then_def)
  have up: "ascii_upper (py ''EUR'') = py ''EUR''" "ascii_upper (py ''USD'') = py ''USD''"
    by (simp_all add: ascii_upper_def py_def)
  show "get_exchange_rate
     (online_world [] (JObj [(py ''rates'', JObj [(py ''EUR'', JStr (py ''0.92''))])]) [])
     (Some (py ''EUR'')) = ([rate_request (py ''USD'')], Inl ValueError)"
    by (simp add: get_exchange_rate_def home_currency_def online_getenv online_fetch online_upper
        up py_nonempty py_inject dict_get_def format_number_def and_then_def)
qed










lemma photo_urls_length: "photo_urls items = Inr urls \<Longrightarrow> length urls \<le> length items"
proof (induction items arbitrary: urls)
  case Nil
  then show ?case by simp
next
  case (Cons item rest)
  from Cons.prems obtain tl where tl: "photo_urls rest = Inr tl" and "urls = tl \<or> (\<exists>u. urls = u # tl)"
    by (auto simp: and_then_Inr split: if_splits)
  with Cons.IH [OF tl] show ?case by auto
qed

lemma get_destination_photos_absent:
  assumes "\<not> present (getenv w (py ''UNSPLASH_ACCESS_KEY'')) \<or> \<not> present destino"
  shows "get_destination_photos w destino = ([], Inr [])"
proof (cases "getenv w (py ''UNSPLASH_ACCESS_KEY'')")
  case None
  then show ?thesis by (simp add: get_destination_photos_def)
next
  case (Some api_key)
  with assms show ?thesis
    by (cases destino) (auto simp: get_destination_photos_def)
qed

lemma get_destination_photos_call:
  assumes "getenv w (py ''UNSPLASH_ACCESS_KEY'') = Some api_key" and "api_key \<noteq> []" and "d \<noteq> []"
  shows "get_destination_photos w (Some d) =
    ([photos_request api_key d],
     case fetch_json w (photos_request api_key d) of
       None \<Rightarrow> Inr []
     | Some data \<Rightarrow>
         and_then (dict_get data (py ''results'') (JArr [])) (\<lambda>results.
         and_then (iterate results) photo_urls))"
  using assms by (simp add: get_destination_photos_def Let_def)

text \<open>
  C8, as amended. Without the photo credential or without a place name the adapter
  makes no request and returns the empty list. Otherwise it makes one request, asking
  for 3 results per page; it returns the empty list when the request fails; and when it
  returns, it returns at most one URL per item of the \<open>results\<close> of the payload, so
  at most 3 URLs whenever the provider sent at most 3 items.
\<close>

theorem photos_contract:
  "(\<not> present (getenv w (py ''UNSPLASH_ACCESS_KEY'')) \<or> \<not> present destino \<longrightarrow>
      get_destination_photos w destino = ([], Inr [])) \<and>
   (\<forall>api_key d.
      getenv w (py ''UNSPLASH_ACCESS_KEY'') = Some api_key \<and> api_key \<noteq> [] \<and>
      destino = Some d \<and> d \<noteq> [] \<longrightarrow>
      fst (get_destination_photos w destino) = [photos_request api_key d] \<and>
      map_of (params (photos_request api_key d)) (py ''per_page'') = Some (py ''3'') \<and>
      (fetch_json w (photos_request api_key d) = None \<longrightarrow>
         snd (get_destination_photos w destino) = Inr []) \<and>
      (\<forall>data items urls.
         fetch_json w (photos_request api_key d) = Some data \<and>
         and_then (dict_get data (py ''results'') (JArr [])) iterate = Inr items \<and>
         snd (get_destination_photos w destino) = Inr urls \<longrightarrow>
         length urls \<le> length items \<and> (length items \<le> 3 \<longrightarrow> length urls \<le> 3)))"
proof (intro conjI impI allI)
  assume "\<not> present (getenv w (py ''UNSPLASH_ACCESS_KEY'')) \<or> \<not> present destino"
  then show "get_destination_photos w destino = ([], Inr [])"
    by (rule get_destination_photos_absent)
next
  fix api_key d
  assume a: "getenv w (py ''UNSPLASH_ACCESS_KEY'') = Some api_key \<and> api_key \<noteq> [] \<and>
      destino = Some d \<and> d \<noteq> []"
  then have call: "get_destination_photos w destino =
    ([photos_request api_key d],
     case fetch_json w (photos_request api_key d) of
       None \<Rightarrow> Inr []
     | Some data \<Rightarrow>
         and_then (dict_get data (py ''results'') (JArr [])) (\<lambda>results.
         and_then (iterate results) photo_urls))"
    by (simp add: get_destination_photos_call)
  show "fst (get_destination_photos w destino) = [photos_request api_key d]"
    by (simp add: call)
  show "map_of (params (photos_request api_key d)) (py ''per_page'') = Some (py ''3'')"
    by (simp add: photos_request_def py_inject)
  show "snd (get_destination_photos w destino) = Inr []"
    if "fetch_json w (photos_request api_key d) = None"
    using that by (simp add: call)
  fix data items urls
  assume b: "fetch_json w (photos_request api_key d) = Some data \<and>
         and_then (dict_get data (py ''results'') (JArr [])) iterate = Inr items \<and>
         snd (get_destination_photos w destino) = Inr urls"
  then have "photo_urls items = Inr urls"
    by (auto simp: call and_then_Inr)
  then have len: "length urls \<le> length items"
    by (rule photo_urls_length)
  then show "length urls \<le> length items" .
  from len show "length urls \<le> 3" if "length items \<le> 3"
    using that by simp
qed

lemma photos_world_urls:
  "get_destination_photos (photos_world us) (Some (py ''Paris'')) =
     ([photos_request (py ''k'') (py ''Paris'')], Inr (map JStr (filter (\<lambda>u. u \<noteq> []) us)))"
proof -
  have "photo_urls (map photo_item us) = Inr (map JStr (filter (\<lambda>u. u \<noteq> []) us))"
    by (induction us) (simp_all add: photo_item_def dict_get_def and_then_def py_inject)
  then show ?thesis
    by (simp add: get_destination_photos_def photos_world_def online_getenv online_fetch
        py_nonempty dict_get_def iterate_def and_then_def)
qed

text \<open>
  C8 as stated fails on a response with four results: all four URLs are returned.
\<close>

theorem photos_counterexample:
  "get_destination_photos (photos_world [py ''a'', py ''b'', py ''c'', py ''d''])
     (Some (py ''Paris'')) =
     ([photos_request (py ''k'') (py ''Paris'')],
      Inr [JStr (py ''a''), JStr (py ''b''), JStr (py ''c''), JStr (py ''d'')]) \<and>
   \<not> length [JStr (py ''a''), JStr (py ''b''), JStr (py ''c''), JStr (py ''d'')] \<le> 3"
  by (simp add: photos_world_urls py_nonempty)

text \<open>An instance of C8: no credential, no place name, and a response with two results.\<close>

theorem photos_contract_witness:
  "get_destination_photos offline_world (Some (py ''Paris'')) = ([], Inr []) \<and>
   get_destination_photos (photos_world [py ''a'', py ''b'']) None = ([], Inr []) \<and>
   fst (get_destination_photos (photos_world [py ''a'', py ''b'']) (Some (py ''Paris''))) =
     [photos_request (py ''k'') (py ''Paris'')] \<and>
   snd (get_destination_photos (photos_world [py ''a'', py ''b'']) (Some (py ''Paris''))) =
     Inr [JStr (py ''a''), JStr (py ''b'')] \<and>
   length [JStr (py ''a''), JStr (py ''b'')] \<le> 3"
proof -
  let ?w = "photos_world [py ''a'', py ''b'']"
  have nokey: "\<not> present (getenv offline_world (py ''UNSPLASH_ACCESS_KEY''))"
    by (simp add: offline_world_def)
  have key: "getenv ?w (py ''UNSPLASH_ACCESS_KEY'') = Some (py ''k'') \<and> py ''k'' \<noteq> [] \<and>
      Some (py ''Paris'') = Some (py ''Paris'') \<and> py ''Paris'' \<noteq> []"
    by (simp add: photos_world_def online_getenv py_nonempty)
  have urls: "snd (get_destination_photos ?w (Some (py ''Paris''))) =
      Inr [JStr (py ''a''), JStr (py ''b'')]"
    by (simp add: photos_world_urls py_nonempty)
  have data: "fetch_json ?w (photos_request (py ''k'') (py ''Paris'')) =
        Some (JObj [(py ''results'', JArr (map photo_item [py ''a'', py ''b'']))]) \<and>
      and_then (dict_get (JObj [(py ''results'', JArr (map photo_item [py ''a'', py ''b'']))])
        (py ''results'') (JArr [])) iterate = Inr (map photo_item [py ''a'', py ''b''])"
    by (simp add: photos_world_def online_fetch dict_get_def iterate_def and_then_def)
  from photos_contract [of offline_world "Some (py ''Paris'')"] nokey
  have a: "get_destination_photos offline_world (Some (py ''Paris'')) = ([], Inr [])"
    by blast
  from photos_contract [of ?w None]
  have b: "get_destination_photos ?w None = ([], Inr [])"
    by simp
  from photos_contract [of ?w "Some (py ''Paris'')"] key
  have c: "fst (get_destination_photos ?w (Some (py ''Paris''))) = [photos_request (py ''k'') (py ''Paris'')]"
    by blast
  from photos_contract [of ?w "Some (py ''Paris'')"] key data urls
  have d: "length [JStr (py ''a''), JStr (py ''b'')] \<le> length (map photo_item [py ''a'', py ''b''])"
    by blast
  from a b c d urls show ?thesis by simp
qed

section \<open>Properties of the itinerary renderer\<close>

lemma str_split_long_answer: "str_split long_answer = replicate 41 long_word"
  unfolding long_answer_def
  by (rule str_split_join) (simp add: list_all_iff long_word_is_word)

lemma wrap_loop_long_words:
  "wrap_loop 90 (replicate n long_word) (lines, [long_word], 46) =
     (lines @ replicate n long_word, [long_word], 46)"
proof (induction n arbitrary: lines)
  case 0
  show ?case by simp
next
  case (Suc n)
  show ?case
    by (simp add: length_long_word Suc.IH replicate_append_same)
qed

lemma wrap_text_long_answer: "wrap_text long_answer 90 = replicate 41 long_word"
proof -
  have n: "(41::nat) = Suc 40" by simp
  have first: "replicate 41 long_word = long_word # replicate 40 long_word"
    by (simp only: n replicate_Suc)
  have run: "wrap_loop 90 (str_split long_answer) ([], [], 0) =
      (replicate 40 long_word, [long_word], 46)"
    unfolding str_split_long_answer first
    using wrap_loop_long_words [of 40 "[]"] by (simp add: length_long_word)
  have "replicate 40 long_word @ [long_word] = replicate 41 long_word"
    unfolding first by (simp add: replicate_append_same)
  with run show ?thesis
    by (simp add: wrap_text_def)
qed

lemma text_line_fields:
  "to_y (text_line t s) = to_y t - to_leading t"
  "to_leading (text_line t s) = to_leading t"
  "to_x (text_line t s) = to_x t"
  "to_font (text_line t s) = to_font t"
  "to_lines (text_line t s) =
     to_lines t @ [DrawTextLine (fst (to_font t)) (snd (to_font t)) (to_x t) (to_y t) s]"
  by (simp_all add: text_line_def)

lemma foldl_text_line_fields:
  "to_y (foldl text_line t ls) = to_y t - of_nat (length ls) * to_leading t \<and>
   to_leading (foldl text_line t ls) = to_leading t \<and>
   to_x (foldl text_line t ls) = to_x t \<and>
   to_font (foldl text_line t ls) = to_font t"
proof (induction ls arbitrary: t)
  case Nil
  show ?case by simp
next
  case (Cons l ls)
  from Cons.IH [of "text_line t l"] show ?case
    by (simp add: text_line_fields algebra_simps)
qed

lemma foldl_text_line_lines:
  "i < length ls \<Longrightarrow>
   DrawTextLine (fst (to_font t)) (snd (to_font t)) (to_x t) (to_y t - of_nat i * to_leading t) (ls ! i)
     \<in> set (to_lines (foldl text_line t ls))"
proof (induction ls arbitrary: i rule: rev_induct)
  case Nil
  then show ?case by simp
next
  case (snoc l ls)
  show ?case
  proof (cases "i < length ls")
    case True
    with snoc.IH [of i] show ?thesis
      by (simp add: text_line_fields nth_append)
  next
    case False
    with snoc.prems have "i = length ls" by simp
    then show ?thesis
      by (simp add: text_line_fields foldl_text_line_fields)
  qed
qed


lemma long_store_history: "conversation_store long_store (py ''s1'') = Some [long_entry]"
  by (simp add: long_store_def append_entry_def history_of_empty last_n_def)

lemma entry_lines_long:
  "entry_lines long_entry =
     ([8226] @ py '' Pregunta: '' @ py ''Plan'') # map (\<lambda>line. py ''  '' @ line) (replicate 41 long_word) @ [[]]"
proof -
  have "long_answer \<noteq> []"
    using str_split_long_answer by (auto simp: str_split_def)
  then show ?thesis
    by (simp add: entry_lines_def long_entry_def wrap_text_long_answer)
qed

lemma length_entry_lines_long: "length (entry_lines long_entry) = 43"
  by (simp add: entry_lines_long)

lemma entry_lines_long_40: "entry_lines long_entry ! 40 = py ''  '' @ long_word"
proof -
  have "entry_lines long_entry ! 40 =
      (map (\<lambda>line. py ''  '' @ line) (replicate 41 long_word) @ [[]]) ! 39"
    by (simp add: entry_lines_long)
  also have "\<dots> = py ''  '' @ long_word"
    by (simp add: nth_append)
  finally show ?thesis .
qed

lemma first_page_text:
  "snd (first_page destino fechas) = begin_text 40 606 (py ''Helvetica'') 11"
  by (simp add: first_page_def page_height_def Let_def)

lemma begin_text_fields:
  "to_y (begin_text x y name pt) = y"
  "to_x (begin_text x y name pt) = x"
  "to_font (begin_text x y name pt) = (name, pt)"
  "to_leading (begin_text x y name pt) = pt * (6 / 5)"
  "to_lines (begin_text x y name pt) = []"
  by (simp_all add: begin_text_def)

lemma cv_pages_draw:
  "cv_pages (draw_header pdf) = cv_pages pdf"
  "cv_pages (draw_string pdf x y s) = cv_pages pdf"
  "cv_pages (set_font pdf name pt) = cv_pages pdf"
  "cv_pages (draw_text pdf t) = cv_pages pdf"
  "cv_pages (show_page pdf) = cv_pages pdf @ [cv_page pdf]"
  "cv_page (draw_text pdf t) = cv_page pdf @ to_lines t"
  by (simp_all add: draw_header_def draw_string_def set_font_def draw_line_def draw_text_def
      show_page_def Let_def)

lemma cv_pages_first_page: "cv_pages (fst (first_page destino fechas)) = []"
  by (simp add: first_page_def cv_pages_draw new_canvas_def Let_def)

text \<open>
  C6. The cursor is compared with the margin only after a whole history entry has been
  written, so the lines of a long answer run below the margin. For a stored answer that
  wraps into 41 lines the document has two pages, and the 40th line of the answer is
  drawn on the first page at height 78, below the margin of 80; the second page holds
  the header and the continuation title only.
\<close>

theorem text_below_margin:
  "\<exists>first second.
     download_itinerary offline_world long_store (py ''s1'') = Inr [first, second] \<and>
     DrawTextLine (py ''Helvetica'') 11 40 78 (py ''  '' @ long_word) \<in> set first"
proof -
  define t0 where "t0 = begin_text 40 606 (py ''Helvetica'') 11"
  define t1 where "t1 = foldl text_line t0 (entry_lines long_entry)"
  define pdf0 where "pdf0 = fst (first_page (py ''Paris'') (py ''Fechas no definidas''))"
  have start: "first_page (py ''Paris'') (py ''Fechas no definidas'') = (pdf0, t0)"
    by (simp add: pdf0_def t0_def prod_eq_iff first_page_text)
  have y: "to_y t1 < 80"
    by (simp add: t1_def t0_def foldl_text_line_fields begin_text_fields length_entry_lines_long)
  have line: "DrawTextLine (py ''Helvetica'') 11 40 78 (py ''  '' @ long_word) \<in> set (to_lines t1)"
    using foldl_text_line_lines [of 40 "entry_lines long_entry" t0]
    by (simp add: t1_def t0_def begin_text_fields length_entry_lines_long entry_lines_long_40)
  have dates: "extract_field (py ''Plan'') (py ''Fechas aproximadas'') = Inr None"
    by (simp add: extract_field_def py_def str_contains_def)
  have photos: "get_destination_photos offline_world destino = ([], Inr [])" for destino
    by (simp add: get_destination_photos_def offline_world_def)
  obtain pdf' t' where flow: "flow_entries [long_entry] (pdf0, t0) = (pdf', t')"
    and pages: "cv_pages pdf' = [cv_page pdf0 @ to_lines t1]"
    and lines: "to_lines t' = []"
    using y by (simp add: t1_def [symmetric] Let_def cv_pages_draw begin_text_fields pdf0_def
        cv_pages_first_page)
  have latest: "he_destino long_entry = Some (py ''Paris'')" "he_pregunta long_entry = py ''Plan''"
    by (simp_all add: long_entry_def)
  have "download_itinerary offline_world long_store (py ''s1'') =
      Inr [cv_page pdf0 @ to_lines t1, cv_page pdf']"
    by (simp add: download_itinerary_def long_store_history latest py_nonempty dates and_then_def
        or_else_def photos start flow gallery_def cv_pages_draw pages lines
        del: flow_entries.simps)
  with line show ?thesis by simp
qed

lemma draw_header_page: "cv_page (draw_header pdf) = cv_page pdf @ header_ops"
  by (simp add: draw_header_def draw_string_def set_font_def draw_line_def header_ops_def Let_def)

lemma cv_page_draw:
  "cv_page (draw_string pdf x y s) = cv_page pdf @ [DrawString (fst (cv_font pdf)) (snd (cv_font pdf)) x y s]"
  "cv_page (set_font pdf name pt) = cv_page pdf"
  "cv_page (show_page pdf) = []"
  by (simp_all add: draw_string_def set_font_def show_page_def)

lemma headed_draw:
  "headed pdf \<Longrightarrow> headed (draw_string pdf x y s)"
  "headed pdf \<Longrightarrow> headed (set_font pdf name pt)"
  "headed pdf \<Longrightarrow> headed (draw_text pdf t)"
  by (simp_all add: headed_def cv_page_draw cv_pages_draw)

lemma headed_new_page: "headed pdf \<Longrightarrow> headed (draw_header (show_page pdf))"
  by (simp add: headed_def draw_header_page cv_page_draw cv_pages_draw)

lemma headed_first_page: "headed (fst (first_page destino fechas))"
proof -
  have "headed (draw_header new_canvas)"
    by (simp add: headed_def draw_header_page cv_pages_draw new_canvas_def)
  then show ?thesis
    by (simp add: first_page_def Let_def headed_draw)
qed

lemma headed_flow_entries: "headed pdf \<Longrightarrow> headed (fst (flow_entries history (pdf, t)))"
proof (induction history arbitrary: pdf t)
  case Nil
  then show ?case by simp
next
  case (Cons entry rest)
  let ?t1 = "foldl text_line t (entry_lines entry)"
  show ?case
  proof (cases "to_y ?t1 < 80")
    case True
    have "headed (draw_string
        (set_font (draw_header (show_page (draw_text pdf ?t1))) (py ''Helvetica-Bold'') 13)
        40 (page_height - 120) (summary_title @ py '' (cont.)''))"
      using Cons.prems by (intro headed_draw headed_new_page)
    from Cons.IH [OF this] True show ?thesis
      by (simp add: Let_def)
  next
    case False
    with Cons.IH [OF Cons.prems] show ?thesis
      by (simp add: Let_def)
  qed
qed

lemma headed_gallery: "headed pdf \<Longrightarrow> headed (gallery w photos pdf)"
proof (cases "photos = []")
  case True
  then show "headed pdf \<Longrightarrow> headed (gallery w photos pdf)"
    by (simp add: gallery_def)
next
  case False
  assume "headed pdf"
  then have "headed (draw_string (set_font (draw_header (show_page pdf)) (py ''Helvetica-Bold'') 13)
      40 (page_height - 120) (py ''Inspiraci'' @ [243] @ py ''n visual''))"
    by (intro headed_draw headed_new_page)
  then show "headed (gallery w photos pdf)"
    using False by (simp add: gallery_def Let_def headed_def)
qed

text \<open>
  The header block, on the other hand, is drawn first on every page: each page of a
  document that the handler returns starts with the same three header operations.
\<close>

lemma header_on_every_page:
  assumes "download_itinerary w st session_id = Inr pages"
  shows "pages \<noteq> [] \<and> list_all (prefix header_ops) pages"
proof -
  from assms obtain history destino fechas photos where
    pages: "pages = cv_pages (show_page (gallery w photos
      (draw_text (fst (flow_entries history (first_page destino fechas)))
                 (snd (flow_entries history (first_page destino fechas))))))"
    by (auto simp: download_itinerary_def and_then_Inr Let_def case_prod_beta
        split: option.splits if_splits)
  have "headed (fst (flow_entries history (first_page destino fechas)))"
    using headed_flow_entries [OF headed_first_page, of history destino fechas
        "snd (first_page destino fechas)"]
    by simp
  then have "headed (gallery w photos
      (draw_text (fst (flow_entries history (first_page destino fechas)))
                 (snd (flow_entries history (first_page destino fechas)))))"
    by (intro headed_gallery headed_draw)
  then show ?thesis
    by (simp add: pages cv_pages_draw headed_def)
qed


end
